theory Spec2Isabelle
  imports Complex_Main "HOL-Library.Sublist" "HOL-Library.AList"
begin

section \<open>Python values, exceptions and paths\<close>

text \<open>
  The module \<^verbatim>\<open>shared_resources.py\<close> is embedded function by function. Every
  function takes the process state (\<open>world\<close>, below) and the answers of the external
  collaborators (\<open>env\<close>), and returns the new state together with either the exception
  it raises (\<open>Inl\<close>) or its return value (\<open>Inr\<close>).

  The exceptions are the subclasses of Python's \<^verbatim>\<open>Exception\<close> that the module
  names or can meet; \<open>Exception m\<close> stands for any other subclass, with its text.
  Signals that are not subclasses of \<^verbatim>\<open>Exception\<close> (KeyboardInterrupt, SystemExit)
  are outside the model, so \<^verbatim>\<open>except Exception\<close> catches every \<open>exn\<close>.
\<close>

datatype exn =
    TypeError string
  | FileNotFoundError string
  | HTTPException nat string
  | Timeout
  | KeyError string
  | IndexError
  | Exception string

text \<open>
  \<^verbatim>\<open>repr(s)\<close> of a string without quotes, backslashes or non-printing characters
  (the keys and type names this module meets are such): the string between single
  quotes.
\<close>

definition repr_str :: "string \<Rightarrow> string" where
  "repr_str s = CHR 0x27 # s @ [CHR 0x27]"

text \<open>
  \<^verbatim>\<open>str(e)\<close>, the text put under the key "error": the message the exception was
  made with, and for a KeyError the \<^verbatim>\<open>repr\<close> of the key.
\<close>

fun str_exn :: "exn \<Rightarrow> string" where
  "str_exn (TypeError m) = m"
| "str_exn (FileNotFoundError m) = m"
| "str_exn (HTTPException c m) = m"
| "str_exn Timeout = ''''"
| "str_exn (KeyError k) = repr_str k"
| "str_exn IndexError = ''list index out of range''"
| "str_exn (Exception m) = m"

datatype pyval =
    PyNone
  | PyBool bool
  | PyInt int
  | PyStr string
  | PyList "pyval list"
  | PyDict "(string \<times> pyval) list"
  | PyFunction string
  | PyCoroutine string

type_synonym dict = "(string \<times> pyval) list"

text \<open>\<^verbatim>\<open>d[k]\<close> on a dictionary: KeyError when the key is absent.\<close>

definition dict_getitem :: "dict \<Rightarrow> string \<Rightarrow> exn + pyval" where
  "dict_getitem d k = (case map_of d k of None \<Rightarrow> Inl (KeyError k) | Some v \<Rightarrow> Inr v)"

text \<open>\<^verbatim>\<open>type(v).__name__\<close>.\<close>

fun type_name :: "pyval \<Rightarrow> string" where
  "type_name PyNone = ''NoneType''"
| "type_name (PyBool b) = ''bool''"
| "type_name (PyInt i) = ''int''"
| "type_name (PyStr s) = ''str''"
| "type_name (PyList xs) = ''list''"
| "type_name (PyDict d) = ''dict''"
| "type_name (PyFunction f) = ''function''"
| "type_name (PyCoroutine f) = ''coroutine''"

text \<open>
  \<^verbatim>\<open>v[k]\<close> with a string key on any value: only a dictionary has one; the other
  values raise TypeError, with CPython's messages.
\<close>

fun getitem :: "pyval \<Rightarrow> string \<Rightarrow> exn + pyval" where
  "getitem (PyDict d) k = dict_getitem d k"
| "getitem (PyList xs) k = Inl (TypeError ''list indices must be integers or slices, not str'')"
| "getitem (PyStr s) k =
     Inl (TypeError (''string indices must be integers, not '' @ repr_str ''str''))"
| "getitem v k = Inl (TypeError (repr_str (type_name v) @ '' object is not subscriptable''))"

text \<open>Truth value of a Python object, as \<^verbatim>\<open>if\<close> tests it.\<close>

fun truthy :: "pyval \<Rightarrow> bool" where
  "truthy PyNone = False"
| "truthy (PyBool b) = b"
| "truthy (PyInt i) = (i \<noteq> 0)"
| "truthy (PyStr s) = (s \<noteq> [])"
| "truthy (PyList xs) = (xs \<noteq> [])"
| "truthy (PyDict d) = (d \<noteq> [])"
| "truthy (PyFunction f) = True"
| "truthy (PyCoroutine f) = True"

text \<open>\<^verbatim>\<open>callable(v)\<close>: of the values modelled, only a function object is.\<close>

fun callable :: "pyval \<Rightarrow> bool" where
  "callable (PyFunction f) = True"
| "callable v = False"

text \<open>
  \<^verbatim>\<open>sum(gpu['mem_total'] for gpu in gpu_info)\<close>: the generator subscripts each
  entry in turn and \<^verbatim>\<open>sum\<close> adds the numbers, starting from 0; an entry without
  the key raises KeyError, a value that is not a number raises TypeError.
\<close>

fun sum_mem_total :: "pyval list \<Rightarrow> int \<Rightarrow> exn + int" where
  "sum_mem_total [] acc = Inr acc"
| "sum_mem_total (gpu # gpus) acc =
     (case getitem gpu ''mem_total'' of
        Inl e \<Rightarrow> Inl e
      | Inr (PyInt n) \<Rightarrow> sum_mem_total gpus (acc + n)
      | Inr (PyBool b) \<Rightarrow> sum_mem_total gpus (acc + (if b then 1 else 0))
      | Inr v \<Rightarrow>
          Inl (TypeError (''unsupported operand type(s) for +: '' @ repr_str ''int'' @
                          '' and '' @ repr_str (type_name v))))"

text \<open>\<^verbatim>\<open>os.path.join(a, b)\<close> and \<^verbatim>\<open>os.path.basename(p)\<close> of posixpath.\<close>

definition path_join :: "string \<Rightarrow> string \<Rightarrow> string" where
  "path_join a b =
     (if b \<noteq> [] \<and> hd b = CHR ''/'' then b
      else if a = [] \<or> last a = CHR ''/'' then a @ b
      else a @ ''/'' @ b)"

definition basename :: "string \<Rightarrow> string" where
  "basename p = rev (takeWhile (\<lambda>c. c \<noteq> CHR ''/'') (rev p))"

text \<open>
  \<^verbatim>\<open>xs.sort(key=f, reverse=True)\<close>. The keys are computed first, one call of \<open>f\<close>
  per element, in the order of the list, and the first call that raises ends the sort
  with its exception. Then the list is put in descending order of the keys, stably
  (elements with equal keys keep their order), which is the stable ascending sort of
  the reversed list, reversed.
\<close>

fun sort_keys :: "('a \<Rightarrow> exn + 'k) \<Rightarrow> 'a list \<Rightarrow> exn + ('a \<times> 'k) list" where
  "sort_keys f [] = Inr []"
| "sort_keys f (x # xs) =
     (case f x of
        Inl e \<Rightarrow> Inl e
      | Inr k \<Rightarrow> (case sort_keys f xs of Inl e \<Rightarrow> Inl e | Inr ks \<Rightarrow> Inr ((x, k) # ks)))"

definition sort_reverse :: "('a \<Rightarrow> exn + 'k::linorder) \<Rightarrow> 'a list \<Rightarrow> exn + 'a list" where
  "sort_reverse f xs =
     (case sort_keys f xs of
        Inl e \<Rightarrow> Inl e
      | Inr ks \<Rightarrow> Inr (map fst (rev (sort_key snd (rev ks)))))"

section \<open>The process state and the external collaborators\<close>

type_synonym handle = nat

text \<open>The calls \<open>initialize_globals\<close> and the module body make to other modules.\<close>

datatype ext_call =
    Is_redis_running
  | Start_redis_server
  | Asyncio_sleep
  | Create_redis_pool
  | Aioredlock
  | Initialize_db
  | Asyncio_Queue
  | DatabaseWriter
  | Initialize_processing_hashes
  | Create_task_dedicated_db_writer
  | Check_that_user_has_required_permissions_to_manage_ramdisks
  | Setup_ramdisk
  | Copy_models_to_ramdisk
  | Build_faiss_indexes
  | AsyncIOScheduler
  | Delete_expired_rows
  | Scheduler_add_job
  | Scheduler_start

text \<open>
  What the process does to the outside, in order: \<open>Called c\<close> when an external call
  is entered and \<open>Returned c\<close> when it returns normally (a call that raises leaves only
  \<open>Called c\<close>); \<open>Llama_init p g\<close> for a call of the constructor
  \<^verbatim>\<open>llama_cpp.Llama\<close> on the file \<open>p\<close>, \<open>g\<close> telling whether
  \<^verbatim>\<open>n_gpu_layers=-1\<close> was passed; \<open>Lock_acquire l t\<close> for the call
  \<^verbatim>\<open>lock.acquire(timeout=t)\<close> on the lock file \<open>l\<close>, followed by \<open>Lock_timeout l\<close>
  when the lock was not obtained in time, and \<open>Lock_release l\<close> when a lock that was
  obtained is given back; the download, the removal and the directory creation of
  \<open>download_models\<close>.
\<close>

datatype event =
    Called ext_call
  | Returned ext_call
  | Llama_init string bool
  | Lock_acquire string nat
  | Lock_timeout string
  | Lock_release string
  | Urlretrieve string string
  | Remove string
  | Makedirs string

record lock_manager_rec =
  default_lock_timeout :: int
  retry_count :: int
  retry_delay_min :: int
  retry_delay_max :: int

datatype trigger = Interval nat

record job =
  func :: pyval
  job_trigger :: trigger

record scheduler_rec =
  jobs :: "job list"
  running :: bool

text \<open>
  The module's globals (\<open>USE_RAMDISK\<close>, the caches, the objects
  \<open>initialize_globals\<close> assigns, \<open>None\<close> before), the part of the file system the
  module reads and writes (\<open>files\<close>: resolved path, see \<open>realpath\<close> below, to size in
  bytes, of a file or a directory; \<open>model_urls_json\<close>:
  the parsed content of model_urls.json, \<open>None\<close> when the file does not exist), and
  the events so far.
\<close>

record world =
  USE_RAMDISK :: bool
  embedding_model_cache :: "string \<rightharpoonup> handle"
  redis :: bool
  lock_manager :: "lock_manager_rec option"
  db_writer :: bool
  faiss_indexes :: bool
  scheduler :: "scheduler_rec option"
  files :: "string \<rightharpoonup> nat"
  model_urls_json :: "string list option"
  events :: "event list"

text \<open>
  The configuration and the answers of the outside world. \<open>nvgpu_gpu_info\<close> is what
  \<^verbatim>\<open>nvgpu.gpu_info()\<close> returns or raises; \<open>glob_glob\<close> is the directory listing a
  pattern gives; \<open>getmtime p\<close> is the modification time of \<open>p\<close>, or the exception
  \<^verbatim>\<open>os.path.getmtime\<close> raises (a listed entry need not be one that can be
  stat'ed: a dangling link, an entry removed in between); \<open>llama_cpp_Llama p g\<close> is
  the outcome of the constructor on file \<open>p\<close> with (\<open>g\<close>) or without GPU layers;
  \<open>urlretrieve u\<close> is the size of the file a completed download of \<open>u\<close> writes, or,
  for a download that fails, the exception it raises and the size of the partial file
  it leaves behind, if it leaves one; \<open>realpath p\<close> is the node of the file system
  that the path text \<open>p\<close> names, so that two texts for one node (with or without a
  final slash, through a link) share one entry of \<open>files\<close>;
  \<open>lock_acquired p\<close> tells whether the file lock is obtained within the timeout while
  the target \<open>p\<close> is handled; \<open>raises c\<close> is the exception the external call \<open>c\<close>
  raises, if any; \<open>delete_expired_rows_result\<close> is the value
  \<^verbatim>\<open>delete_expired_rows(AsyncSessionLocal)\<close> returns (database_functions.py is not
  among the sources); \<open>aioredlock_instance\<close> is the object the constructor
  \<^verbatim>\<open>Aioredlock([redis])\<close> returns, with the library's own attribute values;
  \<open>setup_ramdisk_files\<close> and \<open>copy_models_files\<close> are what those calls do to the file
  system.
\<close>

record env =
  BASE_DIRECTORY :: string
  RAMDISK_PATH :: string
  USE_AUTOMATIC_PURGING_OF_EXPIRED_RECORDS :: bool
  GPU_AVAILABLE :: bool
  nvgpu_gpu_info :: "exn + pyval list"
  glob_glob :: "string \<Rightarrow> string list"
  getmtime :: "string \<Rightarrow> exn + real"
  llama_cpp_Llama :: "string \<Rightarrow> bool \<Rightarrow> exn + handle"
  urlretrieve :: "string \<Rightarrow> (exn \<times> nat option) + nat"
  realpath :: "string \<Rightarrow> string"
  lock_acquired :: "string \<Rightarrow> bool"
  raises :: "ext_call \<Rightarrow> exn option"
  redis_running :: bool
  has_ramdisk_permissions :: bool
  delete_expired_rows_result :: pyval
  aioredlock_instance :: lock_manager_rec
  new_directory_size :: nat
  setup_ramdisk_files :: "(string \<rightharpoonup> nat) \<Rightarrow> (string \<rightharpoonup> nat)"
  copy_models_files :: "string \<Rightarrow> string \<Rightarrow> (string \<rightharpoonup> nat) \<Rightarrow> (string \<rightharpoonup> nat)"

section \<open>is_gpu_available\<close>

definition no_gpu :: dict where
  "no_gpu = [(''gpu_found'', PyBool False), (''num_gpus'', PyInt 0),
             (''first_gpu_vram'', PyInt 0), (''total_vram'', PyInt 0)]"

text \<open>The body of the \<^verbatim>\<open>try\<close> block (lines 60 to 77).\<close>

definition gpu_query :: "env \<Rightarrow> exn + dict" where
  "gpu_query env =
     (case nvgpu_gpu_info env of
        Inl e \<Rightarrow> Inl e
      | Inr gpu_info \<Rightarrow>
          let num_gpus = length gpu_info in
          if num_gpus = 0 then Inr no_gpu
          else
            (case getitem (gpu_info ! 0) ''mem_total'' of
               Inl e \<Rightarrow> Inl e
             | Inr first_gpu_vram \<Rightarrow>
                 (case sum_mem_total gpu_info 0 of
                    Inl e \<Rightarrow> Inl e
                  | Inr total_vram \<Rightarrow>
                      Inr [(''gpu_found'', PyBool True), (''num_gpus'', PyInt (int num_gpus)),
                           (''first_gpu_vram'', first_gpu_vram), (''total_vram'', PyInt total_vram),
                           (''gpu_info'', PyList gpu_info)])))"

definition is_gpu_available :: "env \<Rightarrow> exn + dict" where
  "is_gpu_available env =
     (if \<not> GPU_AVAILABLE env then Inr (no_gpu @ [(''error'', PyStr ''nvgpu module not found'')])
      else
        (case gpu_query env of
           Inr d \<Rightarrow> Inr d
         | Inl e \<Rightarrow> Inr (no_gpu @ [(''error'', PyStr (str_exn e))])))"

section \<open>load_model\<close>

text \<open>The constructor call: it is recorded, and the outside world decides its outcome.\<close>

definition Llama :: "env \<Rightarrow> string \<Rightarrow> bool \<Rightarrow> world \<Rightarrow> world \<times> (exn + handle)" where
  "Llama env model_path gpu w =
     (w\<lparr>events := events w @ [Llama_init model_path gpu]\<rparr>, llama_cpp_Llama env model_path gpu)"

text \<open>
  The body of the \<^verbatim>\<open>try\<close> block of \<open>load_model\<close> (lines 184 to 207). The value
  \<open>None\<close> of the result is Python's \<^verbatim>\<open>None\<close>, which \<open>model_instance\<close> holds until
  a constructor has returned.
\<close>

definition load_model_body :: "env \<Rightarrow> string \<Rightarrow> world \<Rightarrow> world \<times> (exn + handle option)" where
  "load_model_body env llm_model_name w =
     (let models_dir = (if USE_RAMDISK w then path_join (RAMDISK_PATH env) ''models''
                        else path_join (BASE_DIRECTORY env) ''models'') in
      case embedding_model_cache w llm_model_name of
        Some h \<Rightarrow> (w, Inr (Some h))
      | None \<Rightarrow>
          let matching_files = glob_glob env (path_join models_dir (llm_model_name @ ''*'')) in
          if matching_files = [] then (w, Inl (FileNotFoundError ''''))
          else
            (case sort_reverse (getmtime env) matching_files of
               Inl e \<Rightarrow> (w, Inl e)
             | Inr [] \<Rightarrow> (w, Inl IndexError)
             | Inr (model_file_path # _) \<Rightarrow>
                 (case is_gpu_available env of
                    Inl e \<Rightarrow> (w, Inl e)
                  | Inr gpu_info \<Rightarrow>
                      let is_llava_multimodal_model =
                            (if sublist ''llava'' llm_model_name then (1::nat) else 0) in
                      if is_llava_multimodal_model = 0 then
                        (case dict_getitem gpu_info ''gpu_found'' of
                           Inl e \<Rightarrow> (w, Inl e)
                         | Inr gpu_found \<Rightarrow>
                             (case
                                (if truthy gpu_found then
                                   (case Llama env model_file_path True w of
                                      (w1, Inr h) \<Rightarrow> (w1, Inr h)
                                    | (w1, Inl e) \<Rightarrow> Llama env model_file_path False w1)
                                 else Llama env model_file_path False w)
                              of
                                (w2, Inl e) \<Rightarrow> (w2, Inl e)
                              | (w2, Inr model_instance) \<Rightarrow>
                                  (w2\<lparr>embedding_model_cache :=
                                         (embedding_model_cache w2)(llm_model_name \<mapsto> model_instance)\<rparr>,
                                   Inr (Some model_instance))))
                      else (w, Inr None))))"

text \<open>
  The two handlers (lines 208 to 217): a TypeError is raised again as it is; any other
  exception is replaced by HTTPException 404 or by FileNotFoundError.
\<close>

fun load_model_handler :: "string \<Rightarrow> bool \<Rightarrow> exn \<Rightarrow> exn" where
  "load_model_handler llm_model_name raise_http_exception (TypeError m) = TypeError m"
| "load_model_handler llm_model_name raise_http_exception e =
     (if raise_http_exception then HTTPException 404 ''Model file not found''
      else FileNotFoundError (''No model file found matching: '' @ llm_model_name))"

definition load_model :: "env \<Rightarrow> string \<Rightarrow> bool \<Rightarrow> world \<Rightarrow> world \<times> (exn + handle option)" where
  "load_model env llm_model_name raise_http_exception w =
     (case load_model_body env llm_model_name w of
        (w', Inr r) \<Rightarrow> (w', Inr r)
      | (w', Inl e) \<Rightarrow> (w', Inl (load_model_handler llm_model_name raise_http_exception e)))"

text \<open>
  The matching files as \<open>load_model\<close> sorts them, most recently modified first (it
  opens the first), or the exception the sort raises.
\<close>

definition models_dir_of :: "env \<Rightarrow> world \<Rightarrow> string" where
  "models_dir_of env w = (if USE_RAMDISK w then path_join (RAMDISK_PATH env) ''models''
                          else path_join (BASE_DIRECTORY env) ''models'')"

definition matching_files_of :: "env \<Rightarrow> world \<Rightarrow> string \<Rightarrow> exn + string list" where
  "matching_files_of env w llm_model_name =
     sort_reverse (getmtime env) (glob_glob env (path_join (models_dir_of env w) (llm_model_name @ ''*'')))"

text \<open>The Llama constructor calls among a list of events.\<close>

fun llama_calls :: "event list \<Rightarrow> (string \<times> bool) list" where
  "llama_calls [] = []"
| "llama_calls (Llama_init p g # es) = (p, g) # llama_calls es"
| "llama_calls (e # es) = llama_calls es"

text \<open>A sequence of calls of \<open>load_model\<close>, each in its own environment.\<close>

fun load_models :: "(env \<times> string \<times> bool) list \<Rightarrow> world \<Rightarrow> world" where
  "load_models [] w = w"
| "load_models ((env, n, r) # cs) w = load_models cs (fst (load_model env n r w))"

text \<open>Whether \<open>load_model\<close> finds a GPU: the truth value under \<open>gpu_found\<close>.\<close>

definition gpu_detected :: "env \<Rightarrow> bool" where
  "gpu_detected env =
     (case is_gpu_available env of
        Inl e \<Rightarrow> False
      | Inr gpu_info \<Rightarrow> (case map_of gpu_info ''gpu_found'' of None \<Rightarrow> False | Some g \<Rightarrow> truthy g))"

section \<open>External calls and sequencing\<close>

text \<open>
  A call into another module: it is recorded, and raises what the outside world says.
  Statements run in order, and the first exception ends the run.
\<close>

definition ext :: "env \<Rightarrow> ext_call \<Rightarrow> world \<Rightarrow> world \<times> exn option" where
  "ext env c w =
     (case raises env c of
        Some e \<Rightarrow> (w\<lparr>events := events w @ [Called c]\<rparr>, Some e)
      | None \<Rightarrow> (w\<lparr>events := events w @ [Called c, Returned c]\<rparr>, None))"

definition assign :: "(world \<Rightarrow> world) \<Rightarrow> world \<Rightarrow> world \<times> exn option" where
  "assign f w = (f w, None)"

fun run_steps :: "(world \<Rightarrow> world \<times> exn option) list \<Rightarrow> world \<Rightarrow> world \<times> exn option" where
  "run_steps [] w = (w, None)"
| "run_steps (f # fs) w =
     (case f w of (w', None) \<Rightarrow> run_steps fs w' | (w', Some e) \<Rightarrow> (w', Some e))"

definition setup_ramdisk :: "env \<Rightarrow> world \<Rightarrow> world \<times> exn option" where
  "setup_ramdisk env w =
     (case ext env Setup_ramdisk w of
        (w', None) \<Rightarrow> (w'\<lparr>files := setup_ramdisk_files env (files w')\<rparr>, None)
      | (w', Some e) \<Rightarrow> (w', Some e))"

definition copy_models_to_ramdisk :: "env \<Rightarrow> string \<Rightarrow> string \<Rightarrow> world \<Rightarrow> world \<times> exn option" where
  "copy_models_to_ramdisk env models_dir ramdisk_models_dir w =
     (case ext env Copy_models_to_ramdisk w of
        (w', None) \<Rightarrow>
          (w'\<lparr>files := copy_models_files env models_dir ramdisk_models_dir (files w')\<rparr>, None)
      | (w', Some e) \<Rightarrow> (w', Some e))"

section \<open>download_models\<close>

type_synonym status_dict = "(string \<times> string) list"

definition initial_model_urls :: "string list" where
  "initial_model_urls =
     [''https://huggingface.co/NousResearch/Hermes-2-Theta-Llama-3-8B-GGUF/resolve/main/Hermes-2-Pro-Llama-3-Instruct-Merged-DPO-Q4_K_M.gguf'',
      ''https://huggingface.co/QuantFactory/Meta-Llama-3-8B-Instruct-GGUF/resolve/main/Meta-Llama-3-8B-Instruct.Q3_K_S.gguf'',
      ''https://huggingface.co/vonjack/bge-m3-gguf/resolve/main/bge-m3-q8_0.gguf'']"

text \<open>\<^verbatim>\<open>os.path.exists(p)\<close> and \<^verbatim>\<open>os.path.getsize(p)\<close>.\<close>

definition os_path_exists :: "env \<Rightarrow> world \<Rightarrow> string \<Rightarrow> bool" where
  "os_path_exists env w p = (files w (realpath env p) \<noteq> None)"

definition getsize :: "env \<Rightarrow> world \<Rightarrow> string \<Rightarrow> exn + nat" where
  "getsize env w p =
     (case files w (realpath env p) of None \<Rightarrow> Inl (FileNotFoundError p) | Some n \<Rightarrow> Inr n)"

definition too_small :: "status_dict \<Rightarrow> status_dict" where
  "too_small status =
     AList.update ''message'' ''Downloaded file is too small, probably not a valid model file.''
       (AList.update ''status'' ''failure'' status)"

definition no_lock :: "status_dict \<Rightarrow> status_dict" where
  "no_lock status =
     AList.update ''message'' ''Could not acquire lock for downloading.''
       (AList.update ''status'' ''failure'' status)"

text \<open>The status dictionary every iteration starts with (line 154).\<close>

definition status0 :: "string \<Rightarrow> status_dict" where
  "status0 u = [(''url'', u), (''status'', ''success''), (''message'', ''File already exists.'')]"

text \<open>
  The body of the \<^verbatim>\<open>for\<close> loop (lines 154 to 174), for one URL and its file name.
  \<^verbatim>\<open>lock.acquire(timeout=1200)\<close> either raises Timeout, which the handler turns
  into a failure status, or the block runs with the lock held, and the lock is released
  when the block is left, by a return or by an exception. A download that fails raises
  out of the block, past the handler (which takes Timeout only), and whatever it has
  written stays on disk. The size test divides the number of bytes by 1024 * 1024 and
  compares with 100; the division is exact here, as it is on Python's floats for a
  power of two.
\<close>

definition download_models_step ::
    "env \<Rightarrow> string \<Rightarrow> string \<Rightarrow> string \<times> string \<Rightarrow> world \<Rightarrow> world \<times> (exn + status_dict)" where
  "download_models_step env models_dir lock um w =
     (let url = fst um; model_name_with_extension = snd um;
          status = [(''url'', url), (''status'', ''success''), (''message'', ''File already exists.'')];
          filename = path_join models_dir model_name_with_extension;
          w1 = w\<lparr>events := events w @ [Lock_acquire lock 1200]\<rparr> in
      if \<not> lock_acquired env filename
      then (w1\<lparr>events := events w1 @ [Lock_timeout lock]\<rparr>, Inr (no_lock status))
      else
        (case
           (if \<not> os_path_exists env w1 filename then
              (let w2 = w1\<lparr>events := events w1 @ [Urlretrieve url filename]\<rparr> in
               case urlretrieve env url of
                 Inl (e, partial) \<Rightarrow>
                   ((case partial of
                       None \<Rightarrow> w2
                     | Some k \<Rightarrow> w2\<lparr>files := (files w2)(realpath env filename \<mapsto> k)\<rparr>),
                    Inl e)
               | Inr n \<Rightarrow>
                   (let w3 = w2\<lparr>files := (files w2)(realpath env filename \<mapsto> n)\<rparr> in
                    case getsize env w3 filename of
                      Inl e \<Rightarrow> (w3, Inl e)
                    | Inr bytes \<Rightarrow>
                        (let file_size = real bytes / (1024 * 1024) in
                         if file_size < 100 then
                           (w3\<lparr>files := (files w3)(realpath env filename := None),
                               events := events w3 @ [Remove filename]\<rparr>,
                            Inr (too_small status))
                         else (w3, Inr status))))
            else (w1, Inr status))
         of (w4, r) \<Rightarrow> (w4\<lparr>events := events w4 @ [Lock_release lock]\<rparr>, r)))"

fun download_loop ::
    "env \<Rightarrow> string \<Rightarrow> string \<Rightarrow> (string \<times> string) list \<Rightarrow> status_dict list \<Rightarrow> world \<Rightarrow>
     world \<times> (exn + status_dict list)" where
  "download_loop env models_dir lock [] download_status w = (w, Inr download_status)"
| "download_loop env models_dir lock (um # ums) download_status w =
     (case download_models_step env models_dir lock um w of
        (w', Inl e) \<Rightarrow> (w', Inl e)
      | (w', Inr status) \<Rightarrow> download_loop env models_dir lock ums (download_status @ [status]) w')"

text \<open>
  The RAM disk test at the head of \<open>download_models\<close> (lines 138 to 146): \<open>Some\<close> of
  the early return value when every model is found on the RAM disk.
\<close>

definition ramdisk_check ::
    "env \<Rightarrow> string list \<Rightarrow> string list \<Rightarrow> world \<Rightarrow>
     world \<times> (exn + (string list \<times> status_dict list) option)" where
  "ramdisk_check env list_of_model_download_urls model_names w =
     (if USE_RAMDISK w then
        (let ramdisk_models_dir = path_join (RAMDISK_PATH env) ''models'' in
         case (if \<not> os_path_exists env w (RAMDISK_PATH env) then setup_ramdisk env w
               else (w, None)) of
           (w', Some e) \<Rightarrow> (w', Inl e)
         | (w', None) \<Rightarrow>
             if list_all (\<lambda>llm_model_name.
                    os_path_exists env w' (path_join ramdisk_models_dir llm_model_name))
                  model_names
             then (w', Inr (Some (model_names,
                     map (\<lambda>u. [(''url'', u), (''status'', ''success''),
                               (''message'', ''Model found in RAM Disk.'')])
                       list_of_model_download_urls)))
             else (w', Inr None))
      else (w, Inr None))"

text \<open>Lines 122 to 130: the file model_urls.json is written when it does not exist.\<close>

definition write_model_urls :: "world \<Rightarrow> world" where
  "write_model_urls w =
     (if model_urls_json w = None then w\<lparr>model_urls_json := Some initial_model_urls\<rparr> else w)"

text \<open>Lines 147 to 151: the models directory is made when it does not exist.\<close>

definition make_models_dir :: "env \<Rightarrow> string \<Rightarrow> world \<Rightarrow> world" where
  "make_models_dir env models_dir w =
     (if \<not> os_path_exists env w models_dir
      then w\<lparr>files := (files w)(realpath env models_dir \<mapsto> new_directory_size env),
             events := events w @ [Makedirs models_dir]\<rparr>
      else w)"

definition download_models :: "env \<Rightarrow> world \<Rightarrow> world \<times> (exn + string list \<times> status_dict list)" where
  "download_models env w =
     (let w1 = write_model_urls w in
      case model_urls_json w1 of
        None \<Rightarrow> (w1, Inl (FileNotFoundError ''model_urls.json''))
      | Some list_of_model_download_urls \<Rightarrow>
          (let model_names = map basename list_of_model_download_urls;
               models_dir = path_join (BASE_DIRECTORY env) ''models'' in
           case ramdisk_check env list_of_model_download_urls model_names w1 of
             (w2, Inl e) \<Rightarrow> (w2, Inl e)
           | (w2, Inr (Some early)) \<Rightarrow> (w2, Inr early)
           | (w2, Inr None) \<Rightarrow>
               (let w3 = make_models_dir env models_dir w2;
                    lock = path_join models_dir ''download.lock'' in
                case download_loop env models_dir lock
                       (zip list_of_model_download_urls model_names) [] w3 of
                  (w4, Inl e) \<Rightarrow> (w4, Inl e)
                | (w4, Inr download_status) \<Rightarrow>
                    (case (if USE_RAMDISK w4
                           then copy_models_to_ramdisk env models_dir
                                  (path_join (RAMDISK_PATH env) ''models'') w4
                           else (w4, None)) of
                       (w5, Some e) \<Rightarrow> (w5, Inl e)
                     | (w5, None) \<Rightarrow> (w5, Inr (model_names, download_status))))))"

text \<open>
  Names for the parts of a run of \<open>download_models\<close>: the list of URLs it reads, its
  models directory and lock file, the state in which its loop begins (\<open>None\<close> when it
  returns or raises before the loop), and the state in which the iteration number \<open>i\<close>
  of the loop begins, counting from 0: the state in which the loop over the first \<open>i\<close>
  URLs ends (\<open>None\<close> when the loop is not reached or one of these iterations raises;
  for \<open>i\<close> the number of URLs, the state in which the loop ends).
\<close>

definition model_urls :: "world \<Rightarrow> string list" where
  "model_urls w = (case model_urls_json (write_model_urls w) of None \<Rightarrow> [] | Some us \<Rightarrow> us)"

definition download_dir :: "env \<Rightarrow> string" where
  "download_dir env = path_join (BASE_DIRECTORY env) ''models''"

definition download_lock :: "env \<Rightarrow> string" where
  "download_lock env = path_join (download_dir env) ''download.lock''"


definition loop_state ::
    "env \<Rightarrow> string \<Rightarrow> string \<Rightarrow> (string \<times> string) list \<Rightarrow> world \<Rightarrow> nat \<Rightarrow> world option" where
  "loop_state env models_dir lock ums w i =
     (case download_loop env models_dir lock (take i ums) [] w of
        (wi, Inl e) \<Rightarrow> None
      | (wi, Inr download_status) \<Rightarrow> Some wi)"


text \<open>The target file of a URL: \<open>filename\<close> of line 155.\<close>

definition filename_of :: "env \<Rightarrow> string \<Rightarrow> string" where
  "filename_of env url = path_join (download_dir env) (basename url)"


section \<open>initialize_globals\<close>

definition set_lock_manager :: "(lock_manager_rec \<Rightarrow> lock_manager_rec) \<Rightarrow> world \<Rightarrow> world" where
  "set_lock_manager f w = w\<lparr>lock_manager := map_option f (lock_manager w)\<rparr>"

text \<open>Lines 105 to 108: the permission test is made only when \<open>USE_RAMDISK\<close> is set.\<close>

definition ramdisk_setup_step :: "env \<Rightarrow> world \<Rightarrow> world \<times> exn option" where
  "ramdisk_setup_step env w =
     (if USE_RAMDISK w then
        (case ext env Check_that_user_has_required_permissions_to_manage_ramdisks w of
           (w', Some e) \<Rightarrow> (w', Some e)
         | (w', None) \<Rightarrow>
             if \<not> has_ramdisk_permissions env then (w'\<lparr>USE_RAMDISK := False\<rparr>, None)
             else setup_ramdisk env w')
      else (w, None))"

definition download_models_step_of_init :: "env \<Rightarrow> world \<Rightarrow> world \<times> exn option" where
  "download_models_step_of_init env w =
     (case download_models env w of (w', Inl e) \<Rightarrow> (w', Some e) | (w', Inr r) \<Rightarrow> (w', None))"

text \<open>The statements of \<open>initialize_globals\<close> before, and after, the two on the writer.\<close>

definition init_head :: "env \<Rightarrow> (world \<Rightarrow> world \<times> exn option) list" where
  "init_head env =
     [ext env Is_redis_running,
      (\<lambda>w. if \<not> redis_running env
            then run_steps [ext env Start_redis_server, ext env Asyncio_sleep] w
            else (w, None)),
      ext env Create_redis_pool,
      assign (\<lambda>w. w\<lparr>redis := True\<rparr>),
      ext env Aioredlock,
      assign (\<lambda>w. w\<lparr>lock_manager := Some (aioredlock_instance env)\<rparr>),
      assign (set_lock_manager (\<lambda>m. m\<lparr>default_lock_timeout := 20000\<rparr>)),
      assign (set_lock_manager (\<lambda>m. m\<lparr>retry_count := 5\<rparr>)),
      assign (set_lock_manager (\<lambda>m. m\<lparr>retry_delay_min := 100\<rparr>)),
      assign (set_lock_manager (\<lambda>m. m\<lparr>retry_delay_max := 1000\<rparr>)),
      ext env Initialize_db,
      ext env Asyncio_Queue,
      ext env DatabaseWriter,
      assign (\<lambda>w. w\<lparr>db_writer := True\<rparr>)]"

definition init_writer :: "env \<Rightarrow> (world \<Rightarrow> world \<times> exn option) list" where
  "init_writer env =
     [ext env Initialize_processing_hashes,
      ext env Create_task_dedicated_db_writer]"

definition init_tail :: "env \<Rightarrow> (world \<Rightarrow> world \<times> exn option) list" where
  "init_tail env =
     [ramdisk_setup_step env,
      download_models_step_of_init env,
      ext env Build_faiss_indexes,
      assign (\<lambda>w. w\<lparr>faiss_indexes := True\<rparr>)]"

definition initialize_globals :: "env \<Rightarrow> world \<Rightarrow> world \<times> exn option" where
  "initialize_globals env = run_steps (init_head env @ init_writer env @ init_tail env)"

text \<open>The events a call adds to the state.\<close>

definition new_events :: "world \<Rightarrow> world \<Rightarrow> event list" where
  "new_events w w' = drop (length (events w)) (events w')"

text \<open>
  From \<open>w\<close> to \<open>w'\<close> events were only added, and starting the writer task is not one
  of them.
\<close>

definition no_writer_start :: "world \<Rightarrow> world \<Rightarrow> bool" where
  "no_writer_start w w' =
     (\<exists>es. events w' = events w @ es \<and> Called Create_task_dedicated_db_writer \<notin> set es)"

section \<open>The module body: the expiry sweep\<close>

text \<open>
  Lines 45 to 48. The argument of \<^verbatim>\<open>add_job\<close> is the call
  \<^verbatim>\<open>delete_expired_rows(AsyncSessionLocal)\<close>, so that call is made first, once, and
  its value is what \<^verbatim>\<open>add_job\<close> receives, with the trigger \<^verbatim>\<open>'interval'\<close> and
  \<^verbatim>\<open>hours=1\<close>. The scheduler refuses a value that is not callable with a TypeError,
  and its two methods, like every external call, may raise what the outside world says
  (\<^verbatim>\<open>start\<close> does when there is no event loop to run in).
\<close>

definition hours :: "nat \<Rightarrow> nat" where
  "hours n = n * 3600"

definition add_job :: "env \<Rightarrow> pyval \<Rightarrow> trigger \<Rightarrow> world \<Rightarrow> world \<times> exn option" where
  "add_job env f tr w =
     (case raises env Scheduler_add_job of
        Some e \<Rightarrow> (w\<lparr>events := events w @ [Called Scheduler_add_job]\<rparr>, Some e)
      | None \<Rightarrow>
          if \<not> callable f
          then (w\<lparr>events := events w @ [Called Scheduler_add_job]\<rparr>,
                Some (TypeError ''func must be a callable or a textual reference to one''))
          else (w\<lparr>events := events w @ [Called Scheduler_add_job, Returned Scheduler_add_job],
                  scheduler := map_option (\<lambda>s. s\<lparr>jobs := jobs s @ [\<lparr>func = f, job_trigger = tr\<rparr>]\<rparr>)
                                 (scheduler w)\<rparr>, None))"

definition scheduler_start :: "env \<Rightarrow> world \<Rightarrow> world \<times> exn option" where
  "scheduler_start env w =
     (case raises env Scheduler_start of
        Some e \<Rightarrow> (w\<lparr>events := events w @ [Called Scheduler_start]\<rparr>, Some e)
      | None \<Rightarrow>
          (w\<lparr>events := events w @ [Called Scheduler_start, Returned Scheduler_start],
             scheduler := map_option (\<lambda>s. s\<lparr>running := True\<rparr>) (scheduler w)\<rparr>, None))"

definition module_body :: "env \<Rightarrow> world \<Rightarrow> world \<times> exn option" where
  "module_body env w =
     (if USE_AUTOMATIC_PURGING_OF_EXPIRED_RECORDS env then
        run_steps
          [ext env AsyncIOScheduler,
           assign (\<lambda>w. w\<lparr>scheduler := Some \<lparr>jobs = [], running = False\<rparr>\<rparr>),
           ext env Delete_expired_rows,
           add_job env (delete_expired_rows_result env) (Interval (hours 1)),
           scheduler_start env] w
      else (w, None))"

text \<open>
  Modelled from the spec: the periodic scheduler of section 4.4 and of the design notes
  ("register a callable, invoke it anew each interval"); the library that implements it
  is not among the sources. A running scheduler started at time \<open>t0\<close> (in seconds)
  invokes a job with trigger \<open>Interval s\<close> at \<open>t0 + s\<close>, \<open>t0 + 2 * s\<close>, and so on:
  \<open>run_times\<close> lists the times up to \<open>t\<close>, \<open>invocations\<close> the calls made up to \<open>t\<close>.
\<close>

fun run_times :: "nat \<Rightarrow> trigger \<Rightarrow> nat \<Rightarrow> nat list" where
  "run_times t0 (Interval s) t =
     (if s = 0 then [] else map (\<lambda>k. t0 + k * s) [1..<Suc ((t - t0) div s)])"

definition invocations :: "nat \<Rightarrow> scheduler_rec \<Rightarrow> nat \<Rightarrow> (nat \<times> pyval) list" where
  "invocations t0 s t =
     (if running s
      then concat (map (\<lambda>j. map (\<lambda>tm. (tm, func j)) (run_times t0 (job_trigger j) t)) (jobs s))
      else [])"

section \<open>Concrete environments and states\<close>

definition world0 :: world where
  "world0 = \<lparr>USE_RAMDISK = False, embedding_model_cache = Map.empty, redis = False,
             lock_manager = None, db_writer = False, faiss_indexes = False, scheduler = None,
             files = Map.empty, model_urls_json = Some [''http://h/m.gguf''], events = []\<rparr>"

text \<open>
  The resolved form of a path text on a file system without links: the text without
  its final slashes.
\<close>

definition strip_slashes :: "string \<Rightarrow> string" where
  "strip_slashes p =
     (let q = rev (dropWhile (\<lambda>c. c = CHR ''/'') (rev p)) in
      if q = [] \<and> p \<noteq> [] then ''/'' else q)"

text \<open>
  A machine with one GPU on which the GPU construction fails and the CPU construction
  succeeds; two model files; downloads of 5 bytes; no links in the file system.
\<close>

definition env0 :: env where
  "env0 = \<lparr>BASE_DIRECTORY = ''/app'', RAMDISK_PATH = ''/mnt/ramdisk'',
           USE_AUTOMATIC_PURGING_OF_EXPIRED_RECORDS = True, GPU_AVAILABLE = True,
           nvgpu_gpu_info = Inr [PyDict [(''mem_total'', PyInt 8192)]],
           glob_glob = (\<lambda>p. if p = ''/app/models/bge*'' then [''/app/models/bge.gguf'']
                            else if p = ''/app/models/llava*'' then [''/app/models/llava.gguf'']
                            else []),
           getmtime = (\<lambda>p. Inr 0),
           llama_cpp_Llama = (\<lambda>p g. if g then Inl (Exception ''CUDA error'') else Inr 1),
           urlretrieve = (\<lambda>u. Inr 5),
           realpath = strip_slashes,
           lock_acquired = (\<lambda>p. True),
           raises = (\<lambda>c. None),
           redis_running = True,
           has_ramdisk_permissions = True,
           delete_expired_rows_result = PyFunction ''async_delete_expired_rows'',
           aioredlock_instance = \<lparr>default_lock_timeout = 10, retry_count = 3,
                                   retry_delay_min = 0, retry_delay_max = 0\<rparr>,
           new_directory_size = 4096,
           setup_ramdisk_files = (\<lambda>f. f),
           copy_models_files = (\<lambda>a b f. f)\<rparr>"

definition world_cached :: world where
  "world_cached = world0\<lparr>embedding_model_cache := [''gone'' \<mapsto> 7]\<rparr>"

definition world_bge :: world where
  "world_bge = world0\<lparr>events := [Llama_init ''/app/models/bge.gguf'' True,
                                   Llama_init ''/app/models/bge.gguf'' False],
                        embedding_model_cache := [''bge'' \<mapsto> 1]\<rparr>"




text \<open>
  A machine on which the listed model files cannot be stat'ed; one on which the
  download of the second URL breaks off after 5 bytes; two URLs, without and with the
  first model file on disk; a URL that ends in a slash; one where every model is on the
  RAM disk; purging switched off; no event loop for the scheduler.
\<close>

definition env_dangling :: env where
  "env_dangling = env0\<lparr>getmtime := (\<lambda>p. Inl (FileNotFoundError p))\<rparr>"




definition world_slash :: world where
  "world_slash = world0\<lparr>model_urls_json := Some [''http://h/''],
                           files := [''/app/models'' \<mapsto> 4096]\<rparr>"

definition world_ram :: world where
  "world_ram = world0\<lparr>USE_RAMDISK := True,
     files := [''/mnt/ramdisk'' \<mapsto> 4096, ''/mnt/ramdisk/models/m.gguf'' \<mapsto> 200000000]\<rparr>"



definition env_no_purge :: env where
  "env_no_purge = env0\<lparr>USE_AUTOMATIC_PURGING_OF_EXPIRED_RECORDS := False\<rparr>"

definition env_start_fails :: env where
  "env_start_fails = env0\<lparr>raises := (\<lambda>c. if c = Scheduler_start
                                              then Some (Exception ''no running event loop'')
                                              else None)\<rparr>"

definition env_hashes_fail :: env where
  "env_hashes_fail = env0\<lparr>raises := (\<lambda>c. if c = Initialize_processing_hashes
                                              then Some (Exception ''database is locked'') else None)\<rparr>"

definition sweep_events :: "event list" where
  "sweep_events = [Called AsyncIOScheduler, Returned AsyncIOScheduler,
                   Called Delete_expired_rows, Returned Delete_expired_rows,
                   Called Scheduler_add_job, Returned Scheduler_add_job,
                   Called Scheduler_start, Returned Scheduler_start]"

definition world_sched :: world where
  "world_sched = world0\<lparr>events := sweep_events,
     scheduler := Some \<lparr>jobs = [\<lparr>func = PyFunction ''async_delete_expired_rows'',
                                   job_trigger = Interval 3600\<rparr>], running = True\<rparr>\<rparr>"

definition init_events :: "event list" where
  "init_events =
     [Called Is_redis_running, Returned Is_redis_running,
      Called Create_redis_pool, Returned Create_redis_pool,
      Called Aioredlock, Returned Aioredlock,
      Called Initialize_db, Returned Initialize_db,
      Called Asyncio_Queue, Returned Asyncio_Queue,
      Called DatabaseWriter, Returned DatabaseWriter,
      Called Initialize_processing_hashes, Returned Initialize_processing_hashes,
      Called Create_task_dedicated_db_writer, Returned Create_task_dedicated_db_writer,
      Makedirs ''/app/models'',
      Lock_acquire ''/app/models/download.lock'' 1200,
      Urlretrieve ''http://h/m.gguf'' ''/app/models/m.gguf'',
      Remove ''/app/models/m.gguf'',
      Lock_release ''/app/models/download.lock'',
      Called Build_faiss_indexes, Returned Build_faiss_indexes]"

definition world_init :: world where
  "world_init = world0\<lparr>redis := True,
     lock_manager := Some \<lparr>default_lock_timeout = 20000, retry_count = 5,
                            retry_delay_min = 100, retry_delay_max = 1000\<rparr>,
     db_writer := True, faiss_indexes := True,
     files := [''/app/models'' \<mapsto> 4096], events := init_events\<rparr>"

section \<open>Properties of is_gpu_available\<close>

lemma gpu_query_keys:
  "gpu_query env = Inr d \<Longrightarrow>
     (\<exists>b. map_of d ''gpu_found'' = Some (PyBool b)) \<and> map_of d ''num_gpus'' \<noteq> None \<and>
     map_of d ''first_gpu_vram'' \<noteq> None \<and> map_of d ''total_vram'' \<noteq> None"
  by (auto simp: gpu_query_def no_gpu_def Let_def split: sum.splits if_splits)

lemma is_gpu_available_returns:
  "\<exists>d b. is_gpu_available env = Inr d \<and> map_of d ''gpu_found'' = Some (PyBool b)"
proof (cases "GPU_AVAILABLE env")
  case False
  then show ?thesis by (auto simp: is_gpu_available_def no_gpu_def)
next
  case True
  show ?thesis
  proof (cases "gpu_query env")
    case (Inl e)
    with True show ?thesis by (auto simp: is_gpu_available_def no_gpu_def)
  next
    case (Inr d)
    with True gpu_query_keys [OF Inr] show ?thesis
      by (auto simp: is_gpu_available_def)
  qed
qed

lemma is_gpu_available_other_keys:
  "is_gpu_available env = Inr d \<Longrightarrow>
     map_of d ''num_gpus'' \<noteq> None \<and> map_of d ''first_gpu_vram'' \<noteq> None \<and>
     map_of d ''total_vram'' \<noteq> None"
proof (cases "GPU_AVAILABLE env")
  case False
  assume "is_gpu_available env = Inr d"
  with False show ?thesis by (auto simp: is_gpu_available_def no_gpu_def)
next
  case True
  assume r: "is_gpu_available env = Inr d"
  show ?thesis
  proof (cases "gpu_query env")
    case (Inl e)
    with True r show ?thesis by (auto simp: is_gpu_available_def no_gpu_def)
  next
    case (Inr d')
    with True r gpu_query_keys [OF Inr] show ?thesis
      by (auto simp: is_gpu_available_def)
  qed
qed

text \<open>
  C10: \<open>is_gpu_available\<close> never raises. Whatever the environment (module absent, no
  GPU reported, the query raising any exception, an entry without its memory size),
  it returns a dictionary whose key \<open>gpu_found\<close> holds a boolean and which has the
  keys \<open>num_gpus\<close>, \<open>first_gpu_vram\<close> and \<open>total_vram\<close>.
\<close>

theorem is_gpu_available_total:
  "\<exists>d b. is_gpu_available env = Inr d \<and> map_of d ''gpu_found'' = Some (PyBool b) \<and>
     map_of d ''num_gpus'' \<noteq> None \<and> map_of d ''first_gpu_vram'' \<noteq> None \<and>
     map_of d ''total_vram'' \<noteq> None"
proof -
  obtain d b where r: "is_gpu_available env = Inr d" and g: "map_of d ''gpu_found'' = Some (PyBool b)"
    using is_gpu_available_returns by blast
  from is_gpu_available_other_keys [OF r] r g show ?thesis by blast
qed

section \<open>Properties of load_model\<close>

lemma sort_keys_length: "sort_keys f xs = Inr ks \<Longrightarrow> length ks = length xs"
  by (induction xs arbitrary: ks) (auto split: sum.splits)

lemma sort_reverse_length: "sort_reverse f xs = Inr ys \<Longrightarrow> length ys = length xs"
  by (auto simp: sort_reverse_def dest: sort_keys_length split: sum.splits)

lemma sort_keys_Inl:
  "sort_keys f xs = Inl e \<Longrightarrow> \<exists>x\<in>set xs. f x = Inl e"
  by (induction xs) (auto split: sum.splits)

lemma sort_keys_Inr:
  "sort_keys f xs = Inr ks \<Longrightarrow> \<forall>x\<in>set xs. \<exists>k. f x = Inr k"
  by (induction xs arbitrary: ks) (auto split: sum.splits)

text \<open>The sort succeeds exactly when the modification time of every entry can be read.\<close>

lemma sort_reverse_succeeds_iff:
  "(\<exists>ys. sort_reverse f xs = Inr ys) \<longleftrightarrow> (\<forall>x\<in>set xs. \<exists>k. f x = Inr k)"
proof (cases "sort_keys f xs")
  case (Inl e)
  with sort_keys_Inl [OF Inl] show ?thesis by (fastforce simp: sort_reverse_def)
next
  case (Inr ks)
  with sort_keys_Inr [OF Inr] show ?thesis by (auto simp: sort_reverse_def)
qed

lemma load_model_cache_hit:
  "embedding_model_cache w n = Some h \<Longrightarrow> load_model env n r w = (w, Inr (Some h))"
  by (simp add: load_model_def load_model_body_def)

lemma load_model_body_no_file:
  assumes "embedding_model_cache w n = None"
    and "glob_glob env (path_join (models_dir_of env w) (n @ ''*'')) = []"
  shows "load_model_body env n w = (w, Inl (FileNotFoundError []))"
  using assms by (simp add: load_model_body_def models_dir_of_def)

lemma load_model_body_file:
  assumes "embedding_model_cache w n = None"
    and "matching_files_of env w n = Inr (p # ps)"
    and "is_gpu_available env = Inr d"
  shows "load_model_body env n w =
     (if sublist ''llava'' n then (w, Inr None)
      else
        (case dict_getitem d ''gpu_found'' of
           Inl e \<Rightarrow> (w, Inl e)
         | Inr gpu_found \<Rightarrow>
             (case
                (if truthy gpu_found then
                   (case Llama env p True w of
                      (w1, Inr h) \<Rightarrow> (w1, Inr h)
                    | (w1, Inl e) \<Rightarrow> Llama env p False w1)
                 else Llama env p False w)
              of
                (w2, Inl e) \<Rightarrow> (w2, Inl e)
              | (w2, Inr model_instance) \<Rightarrow>
                  (w2\<lparr>embedding_model_cache := (embedding_model_cache w2)(n \<mapsto> model_instance)\<rparr>,
                   Inr (Some model_instance)))))"
proof -
  from assms(2) have s: "sort_reverse (getmtime env)
      (glob_glob env (path_join (models_dir_of env w) (n @ ''*''))) = Inr (p # ps)"
    by (simp add: matching_files_of_def)
  from sort_reverse_length [OF s]
  have g: "glob_glob env (path_join (models_dir_of env w) (n @ ''*'')) \<noteq> []"
    by auto
  show ?thesis
    using assms(1,3) g s
    by (simp add: load_model_body_def models_dir_of_def [symmetric] Let_def)
qed

lemma load_model_body_unreadable:
  assumes "embedding_model_cache w n = None"
    and "glob_glob env (path_join (models_dir_of env w) (n @ ''*'')) \<noteq> []"
    and "matching_files_of env w n = Inl e"
  shows "load_model_body env n w = (w, Inl e)"
proof -
  from assms(3) have s: "sort_reverse (getmtime env)
      (glob_glob env (path_join (models_dir_of env w) (n @ ''*''))) = Inl e"
    by (simp add: matching_files_of_def)
  show ?thesis
    using assms(1,2) s
    by (simp add: load_model_body_def models_dir_of_def [symmetric] Let_def)
qed

lemma load_model_body_llava:
  assumes "sublist ''llava'' n" and "embedding_model_cache w n = None"
    and "matching_files_of env w n = Inr (p # ps)"
  shows "load_model_body env n w = (w, Inr None)"
proof -
  obtain d where d: "is_gpu_available env = Inr d"
    using is_gpu_available_returns by blast
  show ?thesis
    using load_model_body_file [OF assms(2,3) d] assms(1) by simp
qed

text \<open>
  C9, as amended: a model name that contains \<open>llava\<close>, is not in the cache and has
  matching entries in the models directory whose modification times can all be read,
  so that the sort by modification time gives a list \<open>p # ps\<close>: \<open>load_model\<close> returns
  \<^verbatim>\<open>None\<close> without raising, and the state is the one it started from, so no
  constructor was called and nothing was stored in the cache. The claim as written
  asks only for a matching file: the sort at line 191 comes before the test for
  \<open>llava\<close>, and when it raises (a listed entry that cannot be stat'ed) \<open>load_model\<close>
  raises.
\<close>

theorem load_model_llava:
  assumes "sublist ''llava'' n" and "embedding_model_cache w n = None"
    and "matching_files_of env w n = Inr (p # ps)"
  shows "load_model env n r w = (w, Inr None)"
  using load_model_body_llava [OF assms] by (simp add: load_model_def)

lemma env0_models_dir: "models_dir_of env0 world0 = ''/app/models''"
  by (simp add: models_dir_of_def env0_def world0_def path_join_def)

lemma env_dangling_models_dir: "models_dir_of env_dangling world0 = ''/app/models''"
  by (simp add: models_dir_of_def env_dangling_def env0_def world0_def path_join_def)

lemma env0_gpu_detected: "gpu_detected env0"
  by (simp add: gpu_detected_def is_gpu_available_def gpu_query_def env0_def dict_getitem_def)

lemma env_dangling_gpu_detected: "gpu_detected env_dangling"
  by (simp add: gpu_detected_def is_gpu_available_def gpu_query_def env_dangling_def env0_def
        dict_getitem_def)

lemma env0_matching_bge:
  "matching_files_of env0 world0 ''bge'' = Inr [''/app/models/bge.gguf'']"
  by (simp add: matching_files_of_def env0_models_dir path_join_def sort_reverse_def)
     (simp add: env0_def)

lemma env0_matching_llava:
  "matching_files_of env0 world0 ''llava'' = Inr [''/app/models/llava.gguf'']"
  by (simp add: matching_files_of_def env0_models_dir path_join_def sort_reverse_def)
     (simp add: env0_def)

lemma env_dangling_glob_bge:
  "glob_glob env_dangling (path_join (models_dir_of env_dangling world0) (''bge'' @ ''*'')) =
     [''/app/models/bge.gguf'']"
  by (simp add: env_dangling_models_dir path_join_def) (simp add: env_dangling_def env0_def)

lemma env_dangling_glob_llava:
  "glob_glob env_dangling (path_join (models_dir_of env_dangling world0) (''llava'' @ ''*'')) =
     [''/app/models/llava.gguf'']"
  by (simp add: env_dangling_models_dir path_join_def) (simp add: env_dangling_def env0_def)

lemma env_dangling_matching_bge:
  "matching_files_of env_dangling world0 ''bge'' = Inl (FileNotFoundError ''/app/models/bge.gguf'')"
  using env_dangling_glob_bge
  by (simp add: matching_files_of_def sort_reverse_def) (simp add: env_dangling_def)

lemma env_dangling_matching_llava:
  "matching_files_of env_dangling world0 ''llava'' =
     Inl (FileNotFoundError ''/app/models/llava.gguf'')"
  using env_dangling_glob_llava
  by (simp add: matching_files_of_def sort_reverse_def) (simp add: env_dangling_def)

lemma not_llava_bge: "\<not> sublist ''llava'' ''bge''"
  by (simp add: sublist_code)

theorem load_model_llava_witness:
  "sublist ''llava'' ''llava'' \<and> embedding_model_cache world0 ''llava'' = None \<and>
   matching_files_of env0 world0 ''llava'' = Inr [''/app/models/llava.gguf''] \<and>
   load_model env0 ''llava'' True world0 = (world0, Inr None)"
proof -
  have a: "sublist ''llava'' ''llava''" by simp
  have b: "embedding_model_cache world0 ''llava'' = None" by (simp add: world0_def)
  from load_model_llava [OF a b env0_matching_llava] a b env0_matching_llava
  show ?thesis by blast
qed

text \<open>
  A name with \<open>llava\<close> in it, not in the cache, with a matching entry listed in the
  models directory, of which the modification time cannot be read: \<open>load_model\<close>
  raises HTTPException 404.
\<close>

theorem load_model_llava_unreadable:
  "sublist ''llava'' ''llava'' \<and> embedding_model_cache world0 ''llava'' = None \<and>
   glob_glob env_dangling (path_join (models_dir_of env_dangling world0) (''llava'' @ ''*'')) =
     [''/app/models/llava.gguf''] \<and>
   load_model env_dangling ''llava'' True world0 =
     (world0, Inl (HTTPException 404 ''Model file not found''))"
proof -
  have a: "sublist ''llava'' ''llava''" by simp
  have b: "embedding_model_cache world0 ''llava'' = None" by (simp add: world0_def)
  have c: "glob_glob env_dangling
      (path_join (models_dir_of env_dangling world0) (''llava'' @ ''*'')) \<noteq> []"
    using env_dangling_glob_llava by simp
  have "load_model env_dangling ''llava'' True world0 =
      (world0, Inl (HTTPException 404 ''Model file not found''))"
    using load_model_body_unreadable [OF b c env_dangling_matching_llava]
    by (simp add: load_model_def)
  with a b env_dangling_glob_llava show ?thesis by blast
qed

text \<open>
  C5, as amended: a model name that is not in the cache and has no matching file in
  the effective models directory: \<open>load_model\<close> raises HTTPException 404 when
  \<open>raise_http_exception\<close> is set and FileNotFoundError otherwise, and the state is
  unchanged (no constructor call, no second attempt). The claim as written leaves out
  the cache: the lookup in the cache comes before the search for a file, so a cached
  name with no file left on disk is served from the cache.
\<close>

theorem load_model_not_found:
  assumes "embedding_model_cache w n = None"
    and "glob_glob env (path_join (models_dir_of env w) (n @ ''*'')) = []"
  shows "load_model env n r w =
     (w, Inl (if r then HTTPException 404 ''Model file not found''
              else FileNotFoundError (''No model file found matching: '' @ n)))"
  using load_model_body_no_file [OF assms] by (simp add: load_model_def)

text \<open>
  C3, as amended: a model name without \<open>llava\<close> in it, not in the cache, with
  matching entries whose modification times can all be read, \<open>p\<close> being the first of
  them in the sorted list, on a machine where a GPU is detected. The first constructor
  call asks for the GPU. When it returns, its handle is stored and returned and there
  is no second call. When it raises, whatever the exception, the second call is made
  without the GPU: its handle is stored and returned, or, when it raises too, the
  exception that leaves \<open>load_model\<close> is made from that second exception alone. The
  claim as written covers the names with \<open>llava\<close> as well, for which no constructor is
  called at all, and the matching entries that cannot be stat'ed, for which
  \<open>load_model\<close> raises before any constructor call.
\<close>

theorem load_model_gpu_then_cpu:
  assumes "\<not> sublist ''llava'' n" and "embedding_model_cache w n = None"
    and "matching_files_of env w n = Inr (p # ps)" and "gpu_detected env"
  shows "load_model env n r w =
     (case llama_cpp_Llama env p True of
        Inr h \<Rightarrow>
          (w\<lparr>events := events w @ [Llama_init p True],
             embedding_model_cache := (embedding_model_cache w)(n \<mapsto> h)\<rparr>, Inr (Some h))
      | Inl e1 \<Rightarrow>
          (case llama_cpp_Llama env p False of
             Inr h \<Rightarrow>
               (w\<lparr>events := events w @ [Llama_init p True, Llama_init p False],
                  embedding_model_cache := (embedding_model_cache w)(n \<mapsto> h)\<rparr>, Inr (Some h))
           | Inl e2 \<Rightarrow>
               (w\<lparr>events := events w @ [Llama_init p True, Llama_init p False]\<rparr>,
                Inl (load_model_handler n r e2))))"
proof -
  from assms(4) obtain d g where d: "is_gpu_available env = Inr d"
    and g: "map_of d ''gpu_found'' = Some g" and t: "truthy g"
    by (auto simp: gpu_detected_def split: sum.splits option.splits)
  show ?thesis
    using load_model_body_file [OF assms(2,3) d] assms(1) g t
    by (simp add: load_model_def dict_getitem_def Llama_def split: sum.splits)
qed

lemma load_model_cache_mono:
  "embedding_model_cache w \<subseteq>\<^sub>m embedding_model_cache (fst (load_model env n r w))"
proof (cases "embedding_model_cache w n")
  case (Some h)
  then show ?thesis by (simp add: load_model_cache_hit)
next
  case None
  then have "embedding_model_cache w \<subseteq>\<^sub>m (embedding_model_cache w)(n \<mapsto> h)" for h
    by (auto simp: map_le_def)
  with None show ?thesis
    by (auto simp: load_model_def load_model_body_def Llama_def Let_def
             split: list.splits sum.splits prod.splits if_splits)
qed

lemma load_models_cache_mono:
  "embedding_model_cache w \<subseteq>\<^sub>m embedding_model_cache (load_models cs w)"
proof (induction cs arbitrary: w)
  case Nil
  then show ?case by simp
next
  case (Cons c cs)
  obtain env n r where c: "c = (env, n, r)" by (cases c)
  have "embedding_model_cache w \<subseteq>\<^sub>m embedding_model_cache (fst (load_model env n r w))"
    by (rule load_model_cache_mono)
  also have "\<dots> \<subseteq>\<^sub>m embedding_model_cache (load_models cs (fst (load_model env n r w)))"
    by (rule Cons.IH)
  finally show ?case by (simp add: c)
qed

lemma load_model_returns_cached:
  assumes "load_model env n r w = (w1, Inr (Some h))"
  shows "embedding_model_cache w1 n = Some h"
proof (cases "embedding_model_cache w n")
  case (Some h')
  with assms show ?thesis by (simp add: load_model_cache_hit)
next
  case None
  with assms show ?thesis
    by (auto simp: load_model_def load_model_body_def Llama_def Let_def
             split: list.splits sum.splits prod.splits if_splits)
qed

text \<open>
  C6: once a call of \<open>load_model\<close> has returned a handle for a name, the handle is
  in the cache under that name; after any further calls of \<open>load_model\<close> (any names,
  any environments) every entry of the cache is still there with the same handle, and
  a call for the name returns that handle and leaves the state as it is, so without a
  constructor call.
\<close>

theorem load_model_idempotent:
  assumes "load_model env n r w = (w1, Inr (Some h))"
  shows "embedding_model_cache w1 n = Some h \<and>
         embedding_model_cache w1 \<subseteq>\<^sub>m embedding_model_cache (load_models cs w1) \<and>
         load_model env' n r' (load_models cs w1) = (load_models cs w1, Inr (Some h))"
proof -
  have a: "embedding_model_cache w1 n = Some h"
    using assms by (rule load_model_returns_cached)
  have b: "embedding_model_cache w1 \<subseteq>\<^sub>m embedding_model_cache (load_models cs w1)"
    by (rule load_models_cache_mono)
  from a b have "embedding_model_cache (load_models cs w1) n = Some h"
    by (metis domI map_le_def)
  then have "load_model env' n r' (load_models cs w1) = (load_models cs w1, Inr (Some h))"
    by (rule load_model_cache_hit)
  with a b show ?thesis by blast
qed

lemma env0_is_gpu_available:
  "is_gpu_available env0 = Inr [(''gpu_found'', PyBool True), (''num_gpus'', PyInt 1),
     (''first_gpu_vram'', PyInt 8192), (''total_vram'', PyInt 8192),
     (''gpu_info'', PyList [PyDict [(''mem_total'', PyInt 8192)]])]"
  by (simp add: is_gpu_available_def gpu_query_def env0_def dict_getitem_def)

lemma env0_load_bge: "load_model env0 ''bge'' True world0 = (world_bge, Inr (Some 1))"
proof -
  have c: "embedding_model_cache world0 ''bge'' = None" by (simp add: world0_def)
  have l1: "llama_cpp_Llama env0 p True = Inl (Exception ''CUDA error'')" for p
    by (simp add: env0_def)
  have l2: "llama_cpp_Llama env0 p False = Inr 1" for p
    by (simp add: env0_def)
  show ?thesis
    using load_model_body_file [OF c env0_matching_bge env0_is_gpu_available] not_llava_bge
    by (simp add: load_model_def dict_getitem_def Llama_def l1 l2 world_bge_def world0_def)
qed

theorem load_model_idempotent_witness:
  "load_model env0 ''bge'' True world0 = (world_bge, Inr (Some 1)) \<and>
   embedding_model_cache world_bge ''bge'' = Some 1 \<and>
   load_model env0 ''bge'' False (load_models [(env0, ''llava'', True)] world_bge) =
     (load_models [(env0, ''llava'', True)] world_bge, Inr (Some 1))"
  using load_model_idempotent [OF env0_load_bge, of "[(env0, ''llava'', True)]" env0 False]
    env0_load_bge by simp

theorem load_model_gpu_then_cpu_witness:
  "\<not> sublist ''llava'' ''bge'' \<and> embedding_model_cache world0 ''bge'' = None \<and>
   matching_files_of env0 world0 ''bge'' = Inr [''/app/models/bge.gguf''] \<and> gpu_detected env0 \<and>
   llama_cpp_Llama env0 ''/app/models/bge.gguf'' True = Inl (Exception ''CUDA error'') \<and>
   llama_cpp_Llama env0 ''/app/models/bge.gguf'' False = Inr 1 \<and>
   load_model env0 ''bge'' True world0 = (world_bge, Inr (Some 1))"
proof -
  have c: "embedding_model_cache world0 ''bge'' = None" by (simp add: world0_def)
  have l1: "llama_cpp_Llama env0 ''/app/models/bge.gguf'' True = Inl (Exception ''CUDA error'')"
    by (simp add: env0_def)
  have l2: "llama_cpp_Llama env0 ''/app/models/bge.gguf'' False = Inr 1"
    by (simp add: env0_def)
  have "load_model env0 ''bge'' True world0 = (world_bge, Inr (Some 1))"
    using load_model_gpu_then_cpu [OF not_llava_bge c env0_matching_bge env0_gpu_detected, of True]
    by (simp add: l1 l2 world_bge_def world0_def)
  with not_llava_bge c env0_matching_bge env0_gpu_detected l1 l2 show ?thesis by blast
qed

text \<open>
  Two runs on a machine where a GPU is detected, for a name that is not in the cache
  and has a matching entry, in which no constructor is called: a name with \<open>llava\<close> in
  it, for which \<^verbatim>\<open>None\<close> is returned; and a name without it of which the
  matching entry cannot be stat'ed, for which HTTPException 404 is raised.
\<close>

theorem load_model_no_gpu_attempt:
  "gpu_detected env0 \<and> embedding_model_cache world0 ''llava'' = None \<and>
   matching_files_of env0 world0 ''llava'' = Inr [''/app/models/llava.gguf''] \<and>
   llama_calls (events (fst (load_model env0 ''llava'' True world0))) = [] \<and>
   snd (load_model env0 ''llava'' True world0) = Inr None \<and>
   gpu_detected env_dangling \<and> \<not> sublist ''llava'' ''bge'' \<and>
   embedding_model_cache world0 ''bge'' = None \<and>
   glob_glob env_dangling (path_join (models_dir_of env_dangling world0) (''bge'' @ ''*'')) =
     [''/app/models/bge.gguf''] \<and>
   llama_calls (events (fst (load_model env_dangling ''bge'' True world0))) = [] \<and>
   snd (load_model env_dangling ''bge'' True world0) =
     Inl (HTTPException 404 ''Model file not found'')"
proof -
  have a: "sublist ''llava'' ''llava''" by simp
  have b: "embedding_model_cache world0 ''llava'' = None" by (simp add: world0_def)
  have b': "embedding_model_cache world0 ''bge'' = None" by (simp add: world0_def)
  have c: "glob_glob env_dangling
      (path_join (models_dir_of env_dangling world0) (''bge'' @ ''*'')) \<noteq> []"
    using env_dangling_glob_bge by simp
  have l: "load_model env0 ''llava'' True world0 = (world0, Inr None)"
    using load_model_body_llava [OF a b env0_matching_llava] by (simp add: load_model_def)
  have d: "load_model env_dangling ''bge'' True world0 =
      (world0, Inl (HTTPException 404 ''Model file not found''))"
    using load_model_body_unreadable [OF b' c env_dangling_matching_bge]
    by (simp add: load_model_def)
  have e: "llama_calls (events world0) = []" by (simp add: world0_def)
  show ?thesis
    using env0_gpu_detected b env0_matching_llava env_dangling_gpu_detected not_llava_bge b'
      env_dangling_glob_bge
    by (simp add: l d e)
qed

theorem load_model_cached_without_file:
  "glob_glob env0 (path_join (models_dir_of env0 world_cached) (''gone'' @ ''*'')) = [] \<and>
   load_model env0 ''gone'' True world_cached = (world_cached, Inr (Some 7))"
proof -
  have "embedding_model_cache world_cached ''gone'' = Some 7" by (simp add: world_cached_def)
  then have "load_model env0 ''gone'' True world_cached = (world_cached, Inr (Some 7))"
    by (rule load_model_cache_hit)
  moreover have "glob_glob env0 (path_join (models_dir_of env0 world_cached) (''gone'' @ ''*'')) = []"
    by (simp add: models_dir_of_def world_cached_def world0_def path_join_def env0_def)
  ultimately show ?thesis by simp
qed

theorem load_model_not_found_witness:
  "embedding_model_cache world0 ''gone'' = None \<and>
   glob_glob env0 (path_join (models_dir_of env0 world0) (''gone'' @ ''*'')) = [] \<and>
   load_model env0 ''gone'' True world0 = (world0, Inl (HTTPException 404 ''Model file not found'')) \<and>
   load_model env0 ''gone'' False world0 =
     (world0, Inl (FileNotFoundError ''No model file found matching: gone''))"
proof -
  have a: "embedding_model_cache world0 ''gone'' = None" by (simp add: world0_def)
  have b: "glob_glob env0 (path_join (models_dir_of env0 world0) (''gone'' @ ''*'')) = []"
    by (simp add: env0_models_dir path_join_def) (simp add: env0_def)
  from load_model_not_found [OF a b, of True] load_model_not_found [OF a b, of False] a b
  show ?thesis by simp
qed

section \<open>Properties of download_models\<close>

lemma size_test: "(real n / (1024 * 1024) < 100) = (n < 104857600)"
proof -
  have "(real n / (1024 * 1024) < 100) = (real n < 100 * (1024 * 1024))"
    by (simp add: field_simps)
  also have "\<dots> = (real n < real 104857600)" by simp
  also have "\<dots> = (n < 104857600)" by (simp only: of_nat_less_iff)
  finally show ?thesis .
qed




subsection \<open>One iteration of the loop\<close>

lemma step_small:
  assumes "lock_acquired env (path_join models_dir name)"
    and "\<not> os_path_exists env w (path_join models_dir name)"
    and "urlretrieve env u = Inr n" and "n < 104857600"
  shows "download_models_step env models_dir lock (u, name) w =
     (w\<lparr>files := (files w)(realpath env (path_join models_dir name) := None),
        events := events w @ [Lock_acquire lock 1200, Urlretrieve u (path_join models_dir name),
                              Remove (path_join models_dir name), Lock_release lock]\<rparr>,
      Inr (too_small (status0 u)))"
  using assms
  by (simp add: download_models_step_def Let_def getsize_def os_path_exists_def size_test
        status0_def)


lemma step_exists:
  assumes "lock_acquired env (path_join models_dir name)"
    and "os_path_exists env w (path_join models_dir name)"
  shows "download_models_step env models_dir lock (u, name) w =
     (w\<lparr>events := events w @ [Lock_acquire lock 1200, Lock_release lock]\<rparr>, Inr (status0 u))"
  using assms
  by (simp add: download_models_step_def Let_def os_path_exists_def status0_def)





text \<open>
  A URL that ends in a slash has the empty base name, and its target is the models
  directory itself: the iteration finds it there and gives \<open>success\<close>.
\<close>

lemma step_directory:
  assumes "lock_acquired env (path_join d [])" and "realpath env (path_join d []) = realpath env d"
    and "os_path_exists env w d"
  shows "basename (u @ ''/'') = [] \<and>
     download_models_step env d l (u @ ''/'', basename (u @ ''/'')) w =
       (w\<lparr>events := events w @ [Lock_acquire l 1200, Lock_release l]\<rparr>,
        Inr (status0 (u @ ''/'')))"
proof -
  have b: "basename (u @ ''/'') = []" by (simp add: basename_def)
  from assms(2,3) have "os_path_exists env w (path_join d [])"
    by (simp add: os_path_exists_def)
  from step_exists [OF assms(1) this] b show ?thesis by simp
qed


subsection \<open>The loop\<close>




text \<open>
  The list of statuses the loop starts with has no part in what it does: it comes
  back, with the new statuses added.
\<close>

lemma download_loop_acc:
  "download_loop env d l ums acc w = (w', r) \<Longrightarrow>
     (case r of
        Inl e \<Rightarrow> download_loop env d l ums acc' w = (w', Inl e)
      | Inr sts \<Rightarrow> \<exists>rest. sts = acc @ rest \<and>
                           download_loop env d l ums acc' w = (w', Inr (acc' @ rest)))"
proof (induction ums arbitrary: acc acc' w)
  case Nil
  then show ?case by auto
next
  case (Cons um ums)
  obtain w1 r1 where s: "download_models_step env d l um w = (w1, r1)"
    by (cases "download_models_step env d l um w")
  show ?case
  proof (cases r1)
    case (Inl e)
    with Cons.prems s show ?thesis by auto
  next
    case (Inr st)
    with Cons.prems s have "download_loop env d l ums (acc @ [st]) w1 = (w', r)" by simp
    from Cons.IH [OF this, of "acc' @ [st]"] s Inr show ?thesis
      by (auto split: sum.splits)
  qed
qed

text \<open>The state in which an iteration begins, iteration by iteration.\<close>

lemma loop_state_0 [simp]: "loop_state env d l ums w 0 = Some w"
  by (simp add: loop_state_def)

lemma loop_state_Nil [simp]: "loop_state env d l [] w i = Some w"
  by (simp add: loop_state_def)

lemma loop_state_Cons [simp]:
  "loop_state env d l (um # ums) w (Suc i) =
     (case download_models_step env d l um w of
        (w', Inl e) \<Rightarrow> None
      | (w', Inr status) \<Rightarrow> loop_state env d l ums w' i)"
proof -
  obtain w1 r1 where s: "download_models_step env d l um w = (w1, r1)"
    by (cases "download_models_step env d l um w")
  show ?thesis
  proof (cases r1)
    case (Inl e)
    with s show ?thesis by (simp add: loop_state_def)
  next
    case (Inr st)
    obtain w2 r2 where l: "download_loop env d l (take i ums) [st] w1 = (w2, r2)"
      by (cases "download_loop env d l (take i ums) [st] w1")
    from download_loop_acc [OF l, of "[]"] s Inr l show ?thesis
      by (auto simp: loop_state_def split: sum.splits)
  qed
qed







subsection \<open>The whole function\<close>

lemma write_model_urls_json: "model_urls_json (write_model_urls w) = Some (model_urls w)"
  by (cases "model_urls_json w") (simp_all add: model_urls_def write_model_urls_def)

lemma write_model_urls_frame:
  "events (write_model_urls w) = events w \<and> files (write_model_urls w) = files w \<and>
   USE_RAMDISK (write_model_urls w) = USE_RAMDISK w"
  by (simp add: write_model_urls_def)

lemma download_models_unfold:
  "download_models env w =
     (case ramdisk_check env (model_urls w) (map basename (model_urls w)) (write_model_urls w) of
        (w2, Inl e) \<Rightarrow> (w2, Inl e)
      | (w2, Inr (Some early)) \<Rightarrow> (w2, Inr early)
      | (w2, Inr None) \<Rightarrow>
          (case download_loop env (download_dir env) (download_lock env)
                  (zip (model_urls w) (map basename (model_urls w))) []
                  (make_models_dir env (download_dir env) w2) of
             (w4, Inl e) \<Rightarrow> (w4, Inl e)
           | (w4, Inr download_status) \<Rightarrow>
               (case (if USE_RAMDISK w4
                      then copy_models_to_ramdisk env (download_dir env)
                             (path_join (RAMDISK_PATH env) ''models'') w4
                      else (w4, None)) of
                  (w5, Some e) \<Rightarrow> (w5, Inl e)
                | (w5, None) \<Rightarrow> (w5, Inr (map basename (model_urls w), download_status)))))"
  unfolding download_dir_def download_lock_def
  by (simp add: download_models_def Let_def write_model_urls_json)























subsection \<open>Runs of download_models\<close>

lemma basename_m: "basename ''http://h/m.gguf'' = ''m.gguf''"
  by (simp add: basename_def)

lemma basename_n: "basename ''http://h/n.gguf'' = ''n.gguf''"
  by (simp add: basename_def)

lemma join_m: "path_join ''/app/models'' ''m.gguf'' = ''/app/models/m.gguf''"
  by (simp add: path_join_def)


lemma strip_slashes_paths [simp]:
  "strip_slashes ''/app/models'' = ''/app/models''"
  "strip_slashes ''/app/models/'' = ''/app/models''"
  "strip_slashes ''/app/models/m.gguf'' = ''/app/models/m.gguf''"
  "strip_slashes ''/app/models/n.gguf'' = ''/app/models/n.gguf''"
  "strip_slashes ''/mnt/ramdisk'' = ''/mnt/ramdisk''"
  "strip_slashes ''/mnt/ramdisk/models/m.gguf'' = ''/mnt/ramdisk/models/m.gguf''"
  by (simp_all add: strip_slashes_def)

lemma app_paths:
  assumes "BASE_DIRECTORY env = ''/app''"
  shows "download_dir env = ''/app/models''"
    and "download_lock env = ''/app/models/download.lock''"
    and "filename_of env ''http://h/m.gguf'' = ''/app/models/m.gguf''"
    and "filename_of env ''http://h/n.gguf'' = ''/app/models/n.gguf''"
  using assms
  by (simp_all add: download_dir_def download_lock_def filename_of_def path_join_def
        basename_m basename_n)

lemma env0_base: "BASE_DIRECTORY env0 = ''/app''"
  by (simp add: env0_def)






lemma model_urls_world_ram: "model_urls world_ram = [''http://h/m.gguf'']"
  by (simp add: model_urls_def write_model_urls_def world_ram_def world0_def)

text \<open>The iteration for m.gguf when the lock is obtained and the download gives 5 bytes.\<close>

lemma step_m:
  assumes "realpath env ''/app/models/m.gguf'' = ''/app/models/m.gguf''"
    and "lock_acquired env ''/app/models/m.gguf''"
    and "urlretrieve env ''http://h/m.gguf'' = Inr 5"
  shows "download_models_step env ''/app/models'' ''/app/models/download.lock''
     (''http://h/m.gguf'', ''m.gguf'') w =
   (if files w ''/app/models/m.gguf'' = None
    then (w\<lparr>files := (files w)(''/app/models/m.gguf'' := None),
            events := events w @ [Lock_acquire ''/app/models/download.lock'' 1200,
              Urlretrieve ''http://h/m.gguf'' ''/app/models/m.gguf'',
              Remove ''/app/models/m.gguf'', Lock_release ''/app/models/download.lock'']\<rparr>,
          Inr (too_small (status0 ''http://h/m.gguf'')))
    else (w\<lparr>events := events w @ [Lock_acquire ''/app/models/download.lock'' 1200,
              Lock_release ''/app/models/download.lock'']\<rparr>,
          Inr (status0 ''http://h/m.gguf'')))"
proof -
  have l: "lock_acquired env (path_join ''/app/models'' ''m.gguf'')"
    using assms(2) by (simp add: join_m)
  show ?thesis
  proof (cases "files w ''/app/models/m.gguf''")
    case None
    then have n: "\<not> os_path_exists env w (path_join ''/app/models'' ''m.gguf'')"
      by (simp add: join_m os_path_exists_def assms(1))
    from step_small [OF l n assms(3), of "''/app/models/download.lock''"] None show ?thesis
      by (simp add: join_m assms(1))
  next
    case (Some k)
    then have n: "os_path_exists env w (path_join ''/app/models'' ''m.gguf'')"
      by (simp add: join_m os_path_exists_def assms(1))
    from step_exists [OF l n, of "''/app/models/download.lock''" "''http://h/m.gguf''"] Some
    show ?thesis by (simp add: join_m)
  qed
qed

lemma env0_step_m:
  "download_models_step env0 ''/app/models'' ''/app/models/download.lock''
     (''http://h/m.gguf'', ''m.gguf'') w =
   (if files w ''/app/models/m.gguf'' = None
    then (w\<lparr>files := (files w)(''/app/models/m.gguf'' := None),
            events := events w @ [Lock_acquire ''/app/models/download.lock'' 1200,
              Urlretrieve ''http://h/m.gguf'' ''/app/models/m.gguf'',
              Remove ''/app/models/m.gguf'', Lock_release ''/app/models/download.lock'']\<rparr>,
          Inr (too_small (status0 ''http://h/m.gguf'')))
    else (w\<lparr>events := events w @ [Lock_acquire ''/app/models/download.lock'' 1200,
              Lock_release ''/app/models/download.lock'']\<rparr>,
          Inr (status0 ''http://h/m.gguf'')))"
  by (rule step_m) (simp_all add: env0_def)






text \<open>
  A run without RAM disk: the models directory is made when it is missing, then the
  loop runs.
\<close>

lemma download_models_no_ramdisk:
  assumes "\<not> USE_RAMDISK w" and "BASE_DIRECTORY env = ''/app''"
  shows "download_models env w =
     (case download_loop env ''/app/models'' ''/app/models/download.lock''
             (zip (model_urls w) (map basename (model_urls w))) []
             (make_models_dir env ''/app/models'' (write_model_urls w)) of
        (w4, Inl e) \<Rightarrow> (w4, Inl e)
      | (w4, Inr download_status) \<Rightarrow>
          (if USE_RAMDISK w4 then
             (case copy_models_to_ramdisk env ''/app/models''
                     (path_join (RAMDISK_PATH env) ''models'') w4 of
                (w5, Some e) \<Rightarrow> (w5, Inl e)
              | (w5, None) \<Rightarrow> (w5, Inr (map basename (model_urls w), download_status)))
           else (w4, Inr (map basename (model_urls w), download_status))))"
  using assms(1)
  by (simp add: download_models_unfold ramdisk_check_def write_model_urls_frame
        app_paths [OF assms(2)] split: prod.splits sum.splits)

lemma env0_download_models:
  assumes "USE_RAMDISK w = False" and "model_urls_json w = Some [''http://h/m.gguf'']"
    and "files w = Map.empty"
  shows "download_models env0 w =
    (w\<lparr>files := [''/app/models'' \<mapsto> 4096],
       events := events w @ [Makedirs ''/app/models'',
         Lock_acquire ''/app/models/download.lock'' 1200,
         Urlretrieve ''http://h/m.gguf'' ''/app/models/m.gguf'',
         Remove ''/app/models/m.gguf'', Lock_release ''/app/models/download.lock'']\<rparr>,
     Inr ([''m.gguf''], [too_small (status0 ''http://h/m.gguf'')]))"
proof -
  have u: "\<not> USE_RAMDISK w" using assms(1) by simp
  have m: "model_urls w = [''http://h/m.gguf'']" "write_model_urls w = w"
    using assms(2) by (simp_all add: model_urls_def write_model_urls_def)
  have d: "make_models_dir env0 ''/app/models'' w =
      w\<lparr>files := [''/app/models'' \<mapsto> 4096], events := events w @ [Makedirs ''/app/models'']\<rparr>"
    using assms(3) by (simp add: make_models_dir_def os_path_exists_def env0_def)
  show ?thesis
    using u by (simp add: download_models_no_ramdisk [OF u env0_base] m d basename_m env0_step_m)
qed



lemma make_models_dir_world_m:
  assumes "realpath env ''/app/models'' = ''/app/models''" and "files w ''/app/models'' = Some k"
  shows "make_models_dir env ''/app/models'' w = w"
  using assms by (simp add: make_models_dir_def os_path_exists_def)



text \<open>
  A URL that ends in a slash: its target is the models directory, which exists, so
  nothing is downloaded and the status is \<open>success\<close>.
\<close>

lemma env0_download_models_world_slash:
  "download_models env0 world_slash =
    (world_slash\<lparr>events := [Lock_acquire ''/app/models/download.lock'' 1200,
                             Lock_release ''/app/models/download.lock'']\<rparr>,
     Inr ([''''], [status0 ''http://h/'']))"
proof -
  have u: "\<not> USE_RAMDISK world_slash" by (simp add: world_slash_def world0_def)
  have m: "model_urls world_slash = [''http://h/'']" "write_model_urls world_slash = world_slash"
    by (simp_all add: model_urls_def write_model_urls_def world_slash_def)
  have d: "make_models_dir env0 ''/app/models'' world_slash = world_slash"
    by (rule make_models_dir_world_m [of _ _ 4096]) (simp_all add: env0_def world_slash_def)
  have l: "lock_acquired env0 (path_join ''/app/models'' [])" by (simp add: env0_def)
  have r: "realpath env0 (path_join ''/app/models'' []) = realpath env0 ''/app/models''"
    by (simp add: env0_def path_join_def)
  have x: "os_path_exists env0 world_slash ''/app/models''"
    by (simp add: os_path_exists_def env0_def world_slash_def)
  have e: "events world_slash = []" by (simp add: world_slash_def world0_def)
  have b: "basename ''http://h/'' = []" by (simp add: basename_def)
  from step_directory [OF l r x, of "''http://h''" "''/app/models/download.lock''"]
  have s: "download_models_step env0 ''/app/models'' ''/app/models/download.lock''
       (''http://h/'', []) world_slash =
     (world_slash\<lparr>events := [Lock_acquire ''/app/models/download.lock'' 1200,
                              Lock_release ''/app/models/download.lock'']\<rparr>,
      Inr (status0 ''http://h/''))"
    by (simp add: e b)
  show ?thesis
    using u by (simp add: download_models_no_ramdisk [OF u env0_base] m d b s)
qed





lemma env0_ramdisk_check_world_ram:
  "ramdisk_check env0 [''http://h/m.gguf''] [''m.gguf''] world_ram =
     (world_ram, Inr (Some ([''m.gguf''],
        [[(''url'', ''http://h/m.gguf''), (''status'', ''success''),
          (''message'', ''Model found in RAM Disk.'')]])))"
  by (simp add: ramdisk_check_def os_path_exists_def Let_def path_join_def env0_def
        world_ram_def world0_def)

lemma write_model_urls_world_ram: "write_model_urls world_ram = world_ram"
  by (simp add: write_model_urls_def world_ram_def world0_def)

lemma env0_download_models_world_ram:
  "download_models env0 world_ram =
     (world_ram, Inr ([''m.gguf''],
        [[(''url'', ''http://h/m.gguf''), (''status'', ''success''),
          (''message'', ''Model found in RAM Disk.'')]]))"
  by (simp add: download_models_unfold model_urls_world_ram write_model_urls_world_ram basename_m
        env0_ramdisk_check_world_ram)










section \<open>Properties of initialize_globals and of the module body\<close>

lemma no_writer_start_refl [simp]: "no_writer_start w w"
  by (simp add: no_writer_start_def)

lemma no_writer_start_trans:
  "no_writer_start w w1 \<Longrightarrow> no_writer_start w1 w2 \<Longrightarrow> no_writer_start w w2"
  by (auto simp: no_writer_start_def)

lemma ext_no_writer_start:
  "c \<noteq> Create_task_dedicated_db_writer \<Longrightarrow> ext env c w = (w', r) \<Longrightarrow> no_writer_start w w'"
  by (auto simp: ext_def no_writer_start_def split: option.splits)

lemma ext_lock_manager: "ext env c w = (w', r) \<Longrightarrow> lock_manager w' = lock_manager w"
  by (auto simp: ext_def split: option.splits)

lemma setup_ramdisk_frame:
  "setup_ramdisk env w = (w', r) \<Longrightarrow> no_writer_start w w' \<and> lock_manager w' = lock_manager w"
  by (auto simp: setup_ramdisk_def ext_def no_writer_start_def split: option.splits)

lemma copy_models_to_ramdisk_frame:
  "copy_models_to_ramdisk env a b w = (w', r) \<Longrightarrow>
     no_writer_start w w' \<and> lock_manager w' = lock_manager w"
  by (auto simp: copy_models_to_ramdisk_def ext_def no_writer_start_def split: option.splits)

lemma download_models_step_frame:
  "download_models_step env d l um w = (w', r) \<Longrightarrow>
     no_writer_start w w' \<and> lock_manager w' = lock_manager w"
  by (auto simp: download_models_step_def Let_def getsize_def no_writer_start_def
           split: if_splits sum.splits option.splits)

lemma download_loop_frame:
  "download_loop env d l ums acc w = (w', r) \<Longrightarrow>
     no_writer_start w w' \<and> lock_manager w' = lock_manager w"
proof (induction ums arbitrary: acc w)
  case Nil
  then show ?case by simp
next
  case (Cons um ums)
  obtain w1 r1 where s: "download_models_step env d l um w = (w1, r1)"
    by (cases "download_models_step env d l um w")
  note f = download_models_step_frame [OF s]
  show ?case
  proof (cases r1)
    case (Inl e)
    with Cons.prems s f show ?thesis by simp
  next
    case (Inr st)
    with Cons.prems s have "download_loop env d l ums (acc @ [st]) w1 = (w', r)" by simp
    from Cons.IH [OF this] f show ?thesis
      by (auto intro: no_writer_start_trans)
  qed
qed

lemma ramdisk_check_frame:
  "ramdisk_check env us ns w = (w', r) \<Longrightarrow>
     no_writer_start w w' \<and> lock_manager w' = lock_manager w"
  by (auto simp: ramdisk_check_def Let_def split: if_splits prod.splits option.splits
           dest: setup_ramdisk_frame)

lemma download_models_frame:
  assumes "download_models env w = (w', r)"
  shows "no_writer_start w w' \<and> lock_manager w' = lock_manager w"
proof -
  define w1 where "w1 = write_model_urls w"
  have w1: "no_writer_start w w1 \<and> lock_manager w1 = lock_manager w"
    by (simp add: w1_def write_model_urls_def no_writer_start_def)
  obtain w2 r2 where c: "ramdisk_check env (model_urls w) (map basename (model_urls w)) w1 =
      (w2, r2)"
    by (cases "ramdisk_check env (model_urls w) (map basename (model_urls w)) w1")
  note f2 = ramdisk_check_frame [OF c]
  define w3 where "w3 = make_models_dir env (download_dir env) w2"
  have w3: "no_writer_start w2 w3 \<and> lock_manager w3 = lock_manager w2"
    by (simp add: w3_def make_models_dir_def no_writer_start_def)
  obtain w4 r4 where l: "download_loop env (download_dir env) (download_lock env)
      (zip (model_urls w) (map basename (model_urls w))) [] w3 = (w4, r4)"
    by (cases "download_loop env (download_dir env) (download_lock env)
          (zip (model_urls w) (map basename (model_urls w))) [] w3")
  note f4 = download_loop_frame [OF l]
  have f14: "no_writer_start w w4 \<and> lock_manager w4 = lock_manager w"
    using w1 f2 w3 f4 by (auto intro: no_writer_start_trans)
  have f12: "no_writer_start w w2 \<and> lock_manager w2 = lock_manager w"
    using w1 f2 by (auto intro: no_writer_start_trans)
  have r: "download_models env w =
     (case r2 of
        Inl e \<Rightarrow> (w2, Inl e)
      | Inr (Some early) \<Rightarrow> (w2, Inr early)
      | Inr None \<Rightarrow>
          (case r4 of
             Inl e \<Rightarrow> (w4, Inl e)
           | Inr download_status \<Rightarrow>
               (case (if USE_RAMDISK w4
                      then copy_models_to_ramdisk env (download_dir env)
                             (path_join (RAMDISK_PATH env) ''models'') w4
                      else (w4, None)) of
                  (w5, Some e) \<Rightarrow> (w5, Inl e)
                | (w5, None) \<Rightarrow> (w5, Inr (map basename (model_urls w), download_status)))))"
    using c l
    by (simp add: download_models_unfold w1_def [symmetric] w3_def [symmetric]
          split: sum.splits option.splits)
  show ?thesis
  proof (cases r2)
    case (Inl e)
    with r assms f12 show ?thesis by simp
  next
    case (Inr o2)
    show ?thesis
    proof (cases o2)
      case (Some early)
      with Inr r assms f12 show ?thesis by simp
    next
      case None
      show ?thesis
      proof (cases r4)
        case (Inl e)
        with None Inr r assms f14 show ?thesis by simp
      next
        case st: (Inr download_status)
        show ?thesis
        proof (cases "USE_RAMDISK w4")
          case False
          with st None Inr r assms f14 show ?thesis by simp
        next
          case True
          obtain w5 r5 where cp: "copy_models_to_ramdisk env (download_dir env)
              (path_join (RAMDISK_PATH env) ''models'') w4 = (w5, r5)"
            by (cases "copy_models_to_ramdisk env (download_dir env)
                  (path_join (RAMDISK_PATH env) ''models'') w4")
          from copy_models_to_ramdisk_frame [OF cp] f14
          have f15: "no_writer_start w w5 \<and> lock_manager w5 = lock_manager w"
            by (auto intro: no_writer_start_trans)
          from True st None Inr r assms cp f15 show ?thesis
            by (cases r5) auto
        qed
      qed
    qed
  qed
qed

lemma run_steps_append:
  "run_steps (fs @ gs) w =
     (case run_steps fs w of (w', None) \<Rightarrow> run_steps gs w' | (w', Some e) \<Rightarrow> (w', Some e))"
  by (induction fs arbitrary: w) (auto split: prod.splits option.splits)

lemma init_head_events:
  "run_steps (init_head env) w = (w', r) \<Longrightarrow> no_writer_start w w'"
  by (auto simp: init_head_def ext_def assign_def set_lock_manager_def no_writer_start_def
           split: option.splits if_splits)

lemma init_head_lock_manager:
  "run_steps (init_head env) w = (w', None) \<Longrightarrow>
     lock_manager w' = Some \<lparr>default_lock_timeout = 20000, retry_count = 5,
                              retry_delay_min = 100, retry_delay_max = 1000\<rparr>"
  by (auto simp: init_head_def ext_def assign_def set_lock_manager_def
           split: option.splits if_splits)

lemma ramdisk_setup_step_frame:
  "ramdisk_setup_step env w = (w', r) \<Longrightarrow>
     no_writer_start w w' \<and> lock_manager w' = lock_manager w"
proof -
  assume a: "ramdisk_setup_step env w = (w', r)"
  show ?thesis
  proof (cases "USE_RAMDISK w")
    case False
    with a show ?thesis by (simp add: ramdisk_setup_step_def)
  next
    case True
    obtain w1 r1 where c: "ext env Check_that_user_has_required_permissions_to_manage_ramdisks w = (w1, r1)"
      by (cases "ext env Check_that_user_has_required_permissions_to_manage_ramdisks w")
    have f1: "no_writer_start w w1 \<and> lock_manager w1 = lock_manager w"
      using ext_no_writer_start [OF _ c] ext_lock_manager [OF c] by simp
    show ?thesis
    proof (cases r1)
      case (Some e)
      with a True c f1 show ?thesis by (simp add: ramdisk_setup_step_def)
    next
      case None
      show ?thesis
      proof (cases "has_ramdisk_permissions env")
        case False
        with a True c None have "w' = w1\<lparr>USE_RAMDISK := False\<rparr>"
          by (simp add: ramdisk_setup_step_def)
        with f1 show ?thesis by (simp add: no_writer_start_def)
      next
        case p: True
        with a True c None have "setup_ramdisk env w1 = (w', r)"
          by (simp add: ramdisk_setup_step_def)
        from setup_ramdisk_frame [OF this] f1 show ?thesis
          by (auto intro: no_writer_start_trans)
      qed
    qed
  qed
qed

lemma download_models_step_of_init_frame:
  "download_models_step_of_init env w = (w', r) \<Longrightarrow>
     no_writer_start w w' \<and> lock_manager w' = lock_manager w"
proof -
  assume a: "download_models_step_of_init env w = (w', r)"
  obtain w1 r1 where d: "download_models env w = (w1, r1)"
    by (cases "download_models env w")
  from a d have "w' = w1"
    by (cases r1) (simp_all add: download_models_step_of_init_def)
  with download_models_frame [OF d] show ?thesis by simp
qed

lemma init_tail_frame:
  assumes "run_steps (init_tail env) w = (w', r)"
  shows "no_writer_start w w' \<and> lock_manager w' = lock_manager w"
proof -
  obtain w1 r1 where a: "ramdisk_setup_step env w = (w1, r1)"
    by (cases "ramdisk_setup_step env w")
  note f1 = ramdisk_setup_step_frame [OF a]
  show ?thesis
  proof (cases r1)
    case (Some e)
    with assms a f1 show ?thesis by (simp add: init_tail_def)
  next
    case n1: None
    obtain w2 r2 where b: "download_models_step_of_init env w1 = (w2, r2)"
      by (cases "download_models_step_of_init env w1")
    from download_models_step_of_init_frame [OF b] f1
    have f2: "no_writer_start w w2 \<and> lock_manager w2 = lock_manager w"
      by (auto intro: no_writer_start_trans)
    show ?thesis
    proof (cases r2)
      case (Some e)
      with assms a n1 b f2 show ?thesis by (simp add: init_tail_def)
    next
      case n2: None
      obtain w3 r3 where c: "ext env Build_faiss_indexes w2 = (w3, r3)"
        by (cases "ext env Build_faiss_indexes w2")
      from ext_no_writer_start [OF _ c] ext_lock_manager [OF c] f2
      have f3: "no_writer_start w w3 \<and> lock_manager w3 = lock_manager w"
        by (auto intro: no_writer_start_trans)
      show ?thesis
      proof (cases r3)
        case (Some e)
        with assms a n1 b n2 c f3 show ?thesis by (simp add: init_tail_def)
      next
        case n3: None
        with assms a n1 b n2 c have "w' = w3\<lparr>faiss_indexes := True\<rparr>"
          by (simp add: init_tail_def assign_def)
        with f3 show ?thesis by (simp add: no_writer_start_def)
      qed
    qed
  qed
qed

lemma initialize_globals_unfold:
  "initialize_globals env w =
     (case run_steps (init_head env) w of
        (w1, Some e) \<Rightarrow> (w1, Some e)
      | (w1, None) \<Rightarrow>
          (case ext env Initialize_processing_hashes w1 of
             (w2, Some e) \<Rightarrow> (w2, Some e)
           | (w2, None) \<Rightarrow>
               (case ext env Create_task_dedicated_db_writer w2 of
                  (w3, Some e) \<Rightarrow> (w3, Some e)
                | (w3, None) \<Rightarrow> run_steps (init_tail env) w3)))"
  by (simp add: initialize_globals_def run_steps_append init_writer_def
           split: prod.splits option.splits)

lemma initialize_globals_events:
  assumes "initialize_globals env w = (w', r)"
  shows "\<exists>es1 es3.
     Called Create_task_dedicated_db_writer \<notin> set es1 \<and>
     Called Create_task_dedicated_db_writer \<notin> set es3 \<and>
     ((r \<noteq> None \<and> events w' = events w @ es1) \<or>
      (raises env Initialize_processing_hashes \<noteq> None \<and> r \<noteq> None \<and>
       events w' = events w @ es1 @ [Called Initialize_processing_hashes]) \<or>
      (raises env Initialize_processing_hashes = None \<and>
       events w' = events w @ es1 @
         [Called Initialize_processing_hashes, Returned Initialize_processing_hashes,
          Called Create_task_dedicated_db_writer] @ es3))"
proof -
  obtain w1 r1 where h: "run_steps (init_head env) w = (w1, r1)"
    by (cases "run_steps (init_head env) w")
  from init_head_events [OF h] obtain es1 where
    e1: "events w1 = events w @ es1" and n1: "Called Create_task_dedicated_db_writer \<notin> set es1"
    by (auto simp: no_writer_start_def)
  show ?thesis
  proof (cases r1)
    case (Some e)
    with assms h have "w' = w1" "r \<noteq> None" by (auto simp: initialize_globals_unfold)
    with e1 n1 show ?thesis by (intro exI [of _ es1] exI [of _ "[]"]) simp
  next
    case hn: None
    show ?thesis
    proof (cases "raises env Initialize_processing_hashes")
      case (Some e)
      with h hn have "initialize_globals env w =
          (w1\<lparr>events := events w1 @ [Called Initialize_processing_hashes]\<rparr>, Some e)"
        by (simp add: initialize_globals_unfold ext_def)
      with assms have "events w' = events w1 @ [Called Initialize_processing_hashes]" "r \<noteq> None"
        by auto
      with e1 n1 Some show ?thesis by (intro exI [of _ es1] exI [of _ "[]"]) simp
    next
      case ih: None
      define w2 where "w2 = w1\<lparr>events := events w1 @
        [Called Initialize_processing_hashes, Returned Initialize_processing_hashes]\<rparr>"
      have x2: "ext env Initialize_processing_hashes w1 = (w2, None)"
        using ih by (simp add: ext_def w2_def)
      show ?thesis
      proof (cases "raises env Create_task_dedicated_db_writer")
        case (Some e)
        with h hn x2 have "initialize_globals env w =
            (w2\<lparr>events := events w2 @ [Called Create_task_dedicated_db_writer]\<rparr>, Some e)"
          by (simp add: initialize_globals_unfold ext_def)
        with assms have "events w' = events w2 @ [Called Create_task_dedicated_db_writer]"
          by auto
        with e1 n1 ih show ?thesis
          by (intro exI [of _ es1] exI [of _ "[]"]) (simp add: w2_def)
      next
        case ct: None
        define w3 where "w3 = w2\<lparr>events := events w2 @
          [Called Create_task_dedicated_db_writer, Returned Create_task_dedicated_db_writer]\<rparr>"
        have x3: "ext env Create_task_dedicated_db_writer w2 = (w3, None)"
          using ct by (simp add: ext_def w3_def)
        from assms h hn x2 x3 have t: "run_steps (init_tail env) w3 = (w', r)"
          by (simp add: initialize_globals_unfold)
        from init_tail_frame [OF t] obtain es where
          e3: "events w' = events w3 @ es" and n3: "Called Create_task_dedicated_db_writer \<notin> set es"
          by (auto simp: no_writer_start_def)
        from e1 e3 n1 n3 ih show ?thesis
          by (intro exI [of _ es1] exI [of _ "Returned Create_task_dedicated_db_writer # es"])
             (simp add: w2_def w3_def)
      qed
    qed
  qed
qed

text \<open>
  C2: a run of \<open>initialize_globals\<close> that completes has called
  \<open>initialize_processing_hashes\<close>, which has returned, and has started the writer task
  immediately after that return, once. In any run, if the writer task is started at
  all then \<open>initialize_processing_hashes\<close> has been called and has returned immediately
  before, and the writer task is started once; and if \<open>initialize_processing_hashes\<close>
  raises, the writer task is never started and \<open>initialize_globals\<close> ends with an
  exception.
\<close>

theorem initialize_globals_writer_after_hashes:
  assumes "initialize_globals env w = (w', r)"
  shows "(r = None \<longrightarrow>
            (\<exists>pre post. new_events w w' =
               pre @ [Called Initialize_processing_hashes, Returned Initialize_processing_hashes,
                      Called Create_task_dedicated_db_writer] @ post \<and>
               Called Create_task_dedicated_db_writer \<notin> set pre \<and>
               Called Create_task_dedicated_db_writer \<notin> set post)) \<and>
         (Called Create_task_dedicated_db_writer \<in> set (new_events w w') \<longrightarrow>
            raises env Initialize_processing_hashes = None \<and>
            (\<exists>pre post. new_events w w' =
               pre @ [Called Initialize_processing_hashes, Returned Initialize_processing_hashes,
                      Called Create_task_dedicated_db_writer] @ post \<and>
               Called Create_task_dedicated_db_writer \<notin> set pre \<and>
               Called Create_task_dedicated_db_writer \<notin> set post)) \<and>
         (raises env Initialize_processing_hashes \<noteq> None \<longrightarrow>
            Called Create_task_dedicated_db_writer \<notin> set (new_events w w') \<and> r \<noteq> None)"
proof -
  from initialize_globals_events [OF assms] obtain es1 es3 where
    n1: "Called Create_task_dedicated_db_writer \<notin> set es1" and
    n3: "Called Create_task_dedicated_db_writer \<notin> set es3" and
    c: "(r \<noteq> None \<and> events w' = events w @ es1) \<or>
        (raises env Initialize_processing_hashes \<noteq> None \<and> r \<noteq> None \<and>
         events w' = events w @ es1 @ [Called Initialize_processing_hashes]) \<or>
        (raises env Initialize_processing_hashes = None \<and>
         events w' = events w @ es1 @
           [Called Initialize_processing_hashes, Returned Initialize_processing_hashes,
            Called Create_task_dedicated_db_writer] @ es3)"
    by blast
  from c consider
    (a) "r \<noteq> None" "new_events w w' = es1"
    | (b) "raises env Initialize_processing_hashes \<noteq> None" "r \<noteq> None"
          "new_events w w' = es1 @ [Called Initialize_processing_hashes]"
    | (c) "raises env Initialize_processing_hashes = None"
          "new_events w w' = es1 @
             [Called Initialize_processing_hashes, Returned Initialize_processing_hashes,
              Called Create_task_dedicated_db_writer] @ es3"
    by (auto simp: new_events_def)
  then show ?thesis
  proof cases
    case a
    with n1 show ?thesis by (auto simp: c)
  next
    case b
    with n1 show ?thesis by auto
  next
    case c
    with n1 n3 show ?thesis by blast
  qed
qed


text \<open>
  C8: when \<open>initialize_globals\<close> completes, the lock manager exists and its four
  attributes are the ones assigned in lines 95 to 98, whatever the constructor had
  put there: timeout 20000, retry count 5, retry delay from 100 to 1000 (the module's
  comments give the unit, milliseconds).
\<close>

theorem initialize_globals_lock_manager:
  assumes "initialize_globals env w = (w', None)"
  shows "lock_manager w' = Some \<lparr>default_lock_timeout = 20000, retry_count = 5,
                                  retry_delay_min = 100, retry_delay_max = 1000\<rparr>"
proof -
  obtain w1 r1 where h: "run_steps (init_head env) w = (w1, r1)"
    by (cases "run_steps (init_head env) w")
  with assms have r1: "r1 = None"
    by (cases r1) (auto simp: initialize_globals_unfold)
  note l1 = init_head_lock_manager [OF h [unfolded r1]]
  obtain w2 r2 where x2: "ext env Initialize_processing_hashes w1 = (w2, r2)"
    by (cases "ext env Initialize_processing_hashes w1")
  with assms h r1 have r2: "r2 = None"
    by (cases r2) (auto simp: initialize_globals_unfold)
  obtain w3 r3 where x3: "ext env Create_task_dedicated_db_writer w2 = (w3, r3)"
    by (cases "ext env Create_task_dedicated_db_writer w2")
  with assms h r1 x2 r2 have r3: "r3 = None"
    by (cases r3) (auto simp: initialize_globals_unfold)
  from assms h r1 x2 r2 x3 r3 have t: "run_steps (init_tail env) w3 = (w', None)"
    by (simp add: initialize_globals_unfold)
  from init_tail_frame [OF t] ext_lock_manager [OF x3] ext_lock_manager [OF x2] l1
  show ?thesis by simp
qed

lemma module_body_unfold:
  assumes "USE_AUTOMATIC_PURGING_OF_EXPIRED_RECORDS env" and "module_body env w = (w', None)"
  shows "raises env AsyncIOScheduler = None \<and> raises env Delete_expired_rows = None \<and>
     raises env Scheduler_add_job = None \<and> raises env Scheduler_start = None \<and>
     callable (delete_expired_rows_result env) \<and>
     w' = w\<lparr>events := events w @
              [Called AsyncIOScheduler, Returned AsyncIOScheduler,
               Called Delete_expired_rows, Returned Delete_expired_rows,
               Called Scheduler_add_job, Returned Scheduler_add_job,
               Called Scheduler_start, Returned Scheduler_start],
            scheduler := Some \<lparr>jobs = [\<lparr>func = delete_expired_rows_result env,
                                          job_trigger = Interval 3600\<rparr>],
                                running = True\<rparr>\<rparr>"
  using assms
  by (auto simp: module_body_def ext_def assign_def add_job_def scheduler_start_def hours_def
           split: option.splits if_splits)

text \<open>
  C1, as amended: when automatic purging is switched on and the registration code
  (lines 46 to 48) completes. The module body makes four calls and no other: the
  scheduler is made, \<^verbatim>\<open>delete_expired_rows(AsyncSessionLocal)\<close> is called, its value
  is given to \<^verbatim>\<open>add_job\<close>, the scheduler is started. That value is callable, it is the
  one job of the running scheduler, and its trigger is \<open>Interval\<close> of one hour (3600
  seconds). The scheduler invokes it at one hour after the start and every hour from
  then on, never at the start itself. The claim as written has no condition: with
  purging switched off nothing is registered, and when the start of the scheduler
  raises, the job is registered in a scheduler that does not run. The firing times are
  those of the scheduler as the spec describes it; what the registered callable does
  is in database_functions.py, which is not among the sources.
\<close>

theorem module_body_registers_sweep:
  assumes "USE_AUTOMATIC_PURGING_OF_EXPIRED_RECORDS env" and "module_body env w = (w', None)"
  shows "new_events w w' =
           [Called AsyncIOScheduler, Returned AsyncIOScheduler,
            Called Delete_expired_rows, Returned Delete_expired_rows,
            Called Scheduler_add_job, Returned Scheduler_add_job,
            Called Scheduler_start, Returned Scheduler_start] \<and>
         callable (delete_expired_rows_result env) \<and>
         (\<exists>s. scheduler w' = Some s \<and> running s \<and>
              jobs s = [\<lparr>func = delete_expired_rows_result env, job_trigger = Interval 3600\<rparr>] \<and>
              invocations t0 s t =
                map (\<lambda>k. (t0 + k * 3600, delete_expired_rows_result env))
                  [1..<Suc ((t - t0) div 3600)])"
proof -
  note u = module_body_unfold [OF assms]
  then have w': "w' = w\<lparr>events := events w @
              [Called AsyncIOScheduler, Returned AsyncIOScheduler,
               Called Delete_expired_rows, Returned Delete_expired_rows,
               Called Scheduler_add_job, Returned Scheduler_add_job,
               Called Scheduler_start, Returned Scheduler_start],
            scheduler := Some \<lparr>jobs = [\<lparr>func = delete_expired_rows_result env,
                                          job_trigger = Interval 3600\<rparr>],
                                running = True\<rparr>\<rparr>" by simp
  have e: "new_events w w' =
           [Called AsyncIOScheduler, Returned AsyncIOScheduler,
            Called Delete_expired_rows, Returned Delete_expired_rows,
            Called Scheduler_add_job, Returned Scheduler_add_job,
            Called Scheduler_start, Returned Scheduler_start]"
    by (simp add: w' new_events_def)
  have s: "scheduler w' = Some \<lparr>jobs = [\<lparr>func = delete_expired_rows_result env,
                                          job_trigger = Interval 3600\<rparr>],
                                running = True\<rparr>"
    by (simp add: w')
  have i: "invocations t0 \<lparr>jobs = [\<lparr>func = delete_expired_rows_result env,
                                     job_trigger = Interval 3600\<rparr>], running = True\<rparr> t =
           map (\<lambda>k. (t0 + k * 3600, delete_expired_rows_result env))
             [1..<Suc ((t - t0) div 3600)]"
    by (simp add: invocations_def comp_def)
  from u have c: "callable (delete_expired_rows_result env)" by simp
  from e s i c show ?thesis by simp
qed

lemma env0_module_body: "module_body env0 world0 = (world_sched, None)"
  by (simp add: module_body_def ext_def assign_def add_job_def scheduler_start_def hours_def
        env0_def world0_def world_sched_def sweep_events_def)

theorem module_body_registers_sweep_witness:
  "USE_AUTOMATIC_PURGING_OF_EXPIRED_RECORDS env0 \<and>
   module_body env0 world0 = (world_sched, None) \<and>
   new_events world0 world_sched = sweep_events \<and>
   (\<exists>s. scheduler world_sched = Some s \<and> running s \<and>
        invocations 0 s 7200 = [(3600, PyFunction ''async_delete_expired_rows''),
                                (7200, PyFunction ''async_delete_expired_rows'')])"
proof -
  have a: "USE_AUTOMATIC_PURGING_OF_EXPIRED_RECORDS env0" by (simp add: env0_def)
  have f: "delete_expired_rows_result env0 = PyFunction ''async_delete_expired_rows''"
    by (simp add: env0_def)
  have u: "[Suc 0..<3] = [Suc 0, 2]" by (simp add: upt_rec)
  from module_body_registers_sweep [OF a env0_module_body, of 0 7200] a env0_module_body
  show ?thesis by (auto simp: f u sweep_events_def)
qed

text \<open>
  Two runs of the module body in which no recurring job comes to run: with purging
  switched off, nothing is called and there is no scheduler; and when the start of the
  scheduler raises, the module body raises, the job is registered, and the scheduler
  does not run and invokes nothing.
\<close>

theorem module_body_without_sweep:
  "\<not> USE_AUTOMATIC_PURGING_OF_EXPIRED_RECORDS env_no_purge \<and>
   module_body env_no_purge world0 = (world0, None) \<and> scheduler world0 = None \<and>
   USE_AUTOMATIC_PURGING_OF_EXPIRED_RECORDS env_start_fails \<and>
   snd (module_body env_start_fails world0) = Some (Exception ''no running event loop'') \<and>
   scheduler (fst (module_body env_start_fails world0)) =
     Some \<lparr>jobs = [\<lparr>func = PyFunction ''async_delete_expired_rows'',
                     job_trigger = Interval 3600\<rparr>], running = False\<rparr> \<and>
   invocations 0 \<lparr>jobs = [\<lparr>func = PyFunction ''async_delete_expired_rows'',
                            job_trigger = Interval 3600\<rparr>], running = False\<rparr> 7200 = []"
proof -
  have a: "\<not> USE_AUTOMATIC_PURGING_OF_EXPIRED_RECORDS env_no_purge"
    by (simp add: env_no_purge_def)
  have b: "module_body env_no_purge world0 = (world0, None)"
    using a by (simp add: module_body_def)
  have c: "scheduler world0 = None" by (simp add: world0_def)
  have d: "USE_AUTOMATIC_PURGING_OF_EXPIRED_RECORDS env_start_fails"
    by (simp add: env_start_fails_def env0_def)
  have e: "module_body env_start_fails world0 =
      (world0\<lparr>events := [Called AsyncIOScheduler, Returned AsyncIOScheduler,
                          Called Delete_expired_rows, Returned Delete_expired_rows,
                          Called Scheduler_add_job, Returned Scheduler_add_job,
                          Called Scheduler_start],
               scheduler := Some \<lparr>jobs = [\<lparr>func = PyFunction ''async_delete_expired_rows'',
                                             job_trigger = Interval 3600\<rparr>],
                                   running = False\<rparr>\<rparr>,
       Some (Exception ''no running event loop''))"
    by (simp add: module_body_def ext_def assign_def add_job_def scheduler_start_def hours_def
          env_start_fails_def env0_def world0_def)
  have f: "invocations 0 \<lparr>jobs = [\<lparr>func = PyFunction ''async_delete_expired_rows'',
                            job_trigger = Interval 3600\<rparr>], running = False\<rparr> 7200 = []"
    by (simp add: invocations_def)
  from a b c d f show ?thesis by (simp add: e)
qed

lemma env0_raises [simp]: "raises env0 c = None"
  by (simp add: env0_def)

lemma env0_redis_running [simp]: "redis_running env0"
  by (simp add: env0_def)

lemma env0_aioredlock_instance [simp]:
  "aioredlock_instance env0 = \<lparr>default_lock_timeout = 10, retry_count = 3,
                                 retry_delay_min = 0, retry_delay_max = 0\<rparr>"
  by (simp add: env0_def)

lemma env0_initialize_globals: "initialize_globals env0 world0 = (world_init, None)"
  by (simp add: initialize_globals_def init_head_def init_writer_def init_tail_def ext_def
        assign_def set_lock_manager_def ramdisk_setup_step_def download_models_step_of_init_def
        env0_download_models world0_def world_init_def init_events_def)

theorem initialize_globals_lock_manager_witness:
  "initialize_globals env0 world0 = (world_init, None) \<and>
   lock_manager world0 = None \<and>
   lock_manager world_init = Some \<lparr>default_lock_timeout = 20000, retry_count = 5,
                                     retry_delay_min = 100, retry_delay_max = 1000\<rparr>"
  using initialize_globals_lock_manager [OF env0_initialize_globals] env0_initialize_globals
  by (simp add: world0_def)

theorem initialize_globals_writer_after_hashes_witness:
  "initialize_globals env0 world0 = (world_init, None) \<and>
   Called Create_task_dedicated_db_writer \<in> set (new_events world0 world_init) \<and>
   raises env0 Initialize_processing_hashes = None \<and>
   (\<exists>pre post. new_events world0 world_init =
      pre @ [Called Initialize_processing_hashes, Returned Initialize_processing_hashes,
             Called Create_task_dedicated_db_writer] @ post \<and>
      Called Create_task_dedicated_db_writer \<notin> set pre \<and>
      Called Create_task_dedicated_db_writer \<notin> set post) \<and>
   raises env_hashes_fail Initialize_processing_hashes \<noteq> None \<and>
   Called Create_task_dedicated_db_writer \<notin>
     set (new_events world0 (fst (initialize_globals env_hashes_fail world0))) \<and>
   snd (initialize_globals env_hashes_fail world0) \<noteq> None"
proof -
  have m: "Called Create_task_dedicated_db_writer \<in> set (new_events world0 world_init)"
    by (simp add: new_events_def world0_def world_init_def init_events_def)
  have f: "raises env_hashes_fail Initialize_processing_hashes \<noteq> None"
    by (simp add: env_hashes_fail_def)
  have p: "initialize_globals env_hashes_fail world0 =
      (fst (initialize_globals env_hashes_fail world0),
       snd (initialize_globals env_hashes_fail world0))" by simp
  from initialize_globals_writer_after_hashes [OF env0_initialize_globals] m
    initialize_globals_writer_after_hashes [OF p] f env0_initialize_globals
  show ?thesis by blast
qed

end
